theory Spec2Isabelle
  imports
    Main
    "HOL-Library.AList"
    "HOL-Library.Char_ord"
    "HOL-Library.List_Lexorder"
begin

section \<open>Python values used by BEASTling\<close>

text \<open>
  Python exceptions are values: every \<^verbatim>\<open>raise\<close> of the source, and every failing
  built-in operation the source can reach (a missing dictionary key, a list passed where
  a path string is expected), is a branch returning \<open>Inl\<close>. The source raises
  \<^verbatim>\<open>ValueError\<close> for all its configuration and data errors.
\<close>

datatype error = ValueError string | KeyError string | TypeError string | IndexError string

subsection \<open>String operations\<close>

text \<open>\<^verbatim>\<open>str.strip()\<close> removes the ASCII white space of a byte string at both ends.\<close>

definition is_space :: "char \<Rightarrow> bool" where
  "is_space c = (c \<in> set [CHR 0x20, CHR 0x09, CHR 0x0A, CHR 0x0D, CHR 0x0B, CHR 0x0C])"

definition strip :: "string \<Rightarrow> string" where
  "strip s = rev (dropWhile is_space (rev (dropWhile is_space s)))"

text \<open>\<^verbatim>\<open>s.split(c)\<close> for a one-character separator: the empty string gives one empty field.\<close>

fun split_on :: "char \<Rightarrow> string \<Rightarrow> string list" where
  "split_on c [] = [[]]"
| "split_on c (x # xs) =
     (if x = c then [] # split_on c xs
      else (case split_on c xs of
              [] \<Rightarrow> [[x]]
            | w # ws \<Rightarrow> (x # w) # ws))"

text \<open>\<^verbatim>\<open>sep.join(xs)\<close>.\<close>

fun join :: "string \<Rightarrow> string list \<Rightarrow> string" where
  "join sep [] = []"
| "join sep [x] = x"
| "join sep (x # y # ys) = x @ sep @ join sep (y # ys)"

text \<open>\<^verbatim>\<open>str.lower()\<close> on a byte string: only A to Z change.\<close>

definition lower_char :: "char \<Rightarrow> char" where
  "lower_char c =
     (if CHR ''A'' \<le> c \<and> c \<le> CHR ''Z'' then char_of (of_char c + (32::nat)) else c)"

definition lower :: "string \<Rightarrow> string" where
  "lower s = map lower_char s"

text \<open>\<^verbatim>\<open>s.endswith(t)\<close>.\<close>

definition endswith :: "string \<Rightarrow> string \<Rightarrow> bool" where
  "endswith s t = (length t \<le> length s \<and> drop (length s - length t) s = t)"

text \<open>\<^verbatim>\<open>"%d" % n\<close> for a non-negative integer.\<close>

fun str_nat :: "nat \<Rightarrow> string" where
  "str_nat n =
     (if n < 10 then [char_of (48 + n)]
      else str_nat (n div 10) @ [char_of (48 + n mod 10)])"

declare str_nat.simps [simp del]

section \<open>The configuration (configuration.py)\<close>

text \<open>
  Model and clock objects are shared between the lists that refer to them, and the
  document builder writes to them, so they live in an object store and the lists hold
  references. The model classes themselves are not part of these sources: of a model
  object the code below reads its data (a dictionary keyed by language), its messages
  and the back-reference \<^verbatim>\<open>beastxml\<close>, which is \<open>False\<close> until a builder sets it.
\<close>

type_synonym ref = nat

record model_obj =
  m_name :: string
  m_data :: "(string \<times> (string \<times> string) list) list"
  m_data_filename :: string
  m_messages :: "string list"
  m_rate_variation :: bool
  m_clock :: ref
  m_features :: "string list"
  m_weights :: "(string \<times> int) list"
  m_beastxml :: bool

record clock_obj =
  c_name :: string
  c_is_strict :: bool
  c_mean_rate_id :: string
  c_branchrate_model_id :: string
  c_beastxml :: bool

text \<open>
  \<^verbatim>\<open>self.families\<close> is a string when the object is constructed (\<^verbatim>\<open>"*"\<close>) and a
  list of strings once \<^verbatim>\<open>process\<close> has replaced it.
\<close>

datatype families_value = FamStr string | FamList "string list"

text \<open>
  A calibration as the document builder reads it: \<^verbatim>\<open>langs\<close>, \<^verbatim>\<open>dist\<close>,
  \<^verbatim>\<open>param1\<close>, \<^verbatim>\<open>param2\<close>, \<^verbatim>\<open>originate\<close>. The parameters are Python
  floats; their type is left open and \<^verbatim>\<open>str\<close> on them is passed in where it is used.
\<close>

record 'p calibration =
  langs :: "string list"
  dist :: string
  param1 :: 'p
  param2 :: 'p
  originate :: bool

type_synonym model_config = "(string \<times> string) list"

type_synonym classification = "(string \<times> (string \<times> string) list) list"

text \<open>
  The attributes set by \<^verbatim>\<open>Configuration.__init__\<close>, those created by
  \<^verbatim>\<open>process\<close> (\<open>classifications\<close>, \<open>lang_filter\<close>, \<open>models\<close>, \<open>languages\<close>), and
  the further ones that beastxml.py reads from the configuration (\<open>all_models\<close>,
  \<open>clocks\<close>, \<open>monophyly_newick\<close>, \<open>files_to_embed\<close>, \<open>log_fine_probs\<close>,
  \<open>log_pure_tree\<close>, \<open>geo_config\<close>, \<open>geo_model\<close>). \<open>configfile\<close> holds the text of the
  configuration file when there is one; \<open>geo_config\<close> holds the value of its
  \<^verbatim>\<open>log_locations\<close> entry when a geography section exists. \<open>model_heap\<close> and
  \<open>clock_heap\<close> are the object store.
\<close>

record 'p configuration =
  processed :: bool
  messages :: "string list"
  message_flags :: "string list"
  basename :: string
  configfile :: "string option"
  files_to_embed :: "string list"
  chainlength :: int
  embed_data :: bool
  sample_from_prior :: bool
  families :: families_value
  overlap :: string
  starting_tree :: string
  sample_branch_lengths :: bool
  sample_topology :: bool
  model_configs :: "model_config list"
  monophyly :: bool
  monophyly_newick :: string
  screenlog :: bool
  log_all :: bool
  log_every :: int
  log_params :: bool
  log_probabilities :: bool
  log_trees :: bool
  log_fine_probs :: bool
  log_pure_tree :: bool
  geo_config :: "bool option"
  geo_model :: ref
  tree_logging_pointless :: bool
  stdin_data :: bool
  calibrations :: "(string \<times> 'p calibration) list"
  glottolog_release :: string
  classifications :: classification
  lang_filter :: "string set"
  models :: "ref list"
  all_models :: "ref list"
  clocks :: "ref list"
  languages :: "string list"
  model_heap :: "(ref \<times> model_obj) list"
  clock_heap :: "(ref \<times> clock_obj) list"

text \<open>
  What \<^verbatim>\<open>process\<close> takes from outside the program: the file system, the Glottolog
  classification (\<^verbatim>\<open>load_glotto_class\<close>, which fails with a \<^verbatim>\<open>ValueError\<close> when the
  classification cannot be retrieved), and the constructors of the model classes.
\<close>

record environment =
  path_exists :: "string \<Rightarrow> bool"
  read_lines :: "string \<Rightarrow> string list"
  read_text :: "string \<Rightarrow> string"
  load_glotto_class :: "string \<Rightarrow> error + classification"
  make_model :: "string \<Rightarrow> model_config \<Rightarrow> error + model_obj"
  bsvs_package_notice :: string
  mk_package_notice :: string

text \<open>The defaults of \<^verbatim>\<open>Configuration.__init__\<close>; no configuration file is read.\<close>

definition Configuration_init :: "string \<Rightarrow> bool \<Rightarrow> 'p configuration" where
  "Configuration_init bn stdin =
     \<lparr>processed = False, messages = [], message_flags = [], basename = bn,
      configfile = None, files_to_embed = [], chainlength = 10000000, embed_data = False,
      sample_from_prior = False, families = FamStr ''*'', overlap = ''error'',
      starting_tree = [], sample_branch_lengths = True, sample_topology = True,
      model_configs = [], monophyly = False, monophyly_newick = [], screenlog = True,
      log_all = False, log_every = 0, log_params = False, log_probabilities = True,
      log_trees = True, log_fine_probs = False, log_pure_tree = False, geo_config = None,
      geo_model = 0, tree_logging_pointless = False, stdin_data = stdin, calibrations = [],
      glottolog_release = ''2.7'', classifications = [], lang_filter = {}, models = [],
      all_models = [], clocks = [], languages = [], model_heap = [], clock_heap = []\<rparr>"

subsection \<open>The overlap resolvers\<close>

text \<open>
  \<^verbatim>\<open>assert_compare_equal\<close>, and the table \<^verbatim>\<open>Configuration.valid_overlaps\<close> with
  its three keys \<^verbatim>\<open>"union"\<close>, \<^verbatim>\<open>"intersection"\<close> and \<^verbatim>\<open>"error"\<close>. Looking up any
  other key raises \<^verbatim>\<open>KeyError\<close>.
\<close>

definition assert_compare_equal :: "string set \<Rightarrow> string set \<Rightarrow> error + string set" where
  "assert_compare_equal one other =
     (if one \<noteq> other then Inl (ValueError ''Values were expected to match.'') else Inr one)"

definition valid_overlaps ::
    "string \<Rightarrow> (string set \<Rightarrow> string set \<Rightarrow> error + string set) option" where
  "valid_overlaps key =
     (if key = ''union'' then Some (\<lambda>a b. Inr (a \<union> b))
      else if key = ''intersection'' then Some (\<lambda>a b. Inr (a \<inter> b))
      else if key = ''error'' then Some assert_compare_equal
      else None)"

text \<open>
  The loop over the models (lines 289 to 296): each model contributes its languages,
  cut down to the filter when the filter is a non-empty set.
\<close>

fun combine_languages ::
    "(string set \<Rightarrow> string set \<Rightarrow> error + string set) \<Rightarrow> string set \<Rightarrow>
     string set \<Rightarrow> string set list \<Rightarrow> error + string set" where
  "combine_languages resolver flt ls [] = Inr ls"
| "combine_languages resolver flt ls (keys # rest) =
     (let addition = (if flt \<noteq> {} then keys \<inter> flt else keys)
      in case resolver ls addition of
           Inl e \<Rightarrow> Inl e
         | Inr ls' \<Rightarrow> combine_languages resolver flt ls' rest)"

text \<open>
  Lines 285 to 304, on the language sets of the models in their order: start from the
  first model's languages (\<^verbatim>\<open>self.models[0]\<close>, an \<^verbatim>\<open>IndexError\<close> on an empty
  list), combine, reject an empty result, sort.
\<close>

definition finalise_languages ::
    "string \<Rightarrow> string set \<Rightarrow> string set list \<Rightarrow> error + string list" where
  "finalise_languages ovl flt datasets =
     (case datasets of
        [] \<Rightarrow> Inl (IndexError ''list index out of range'')
      | first # _ \<Rightarrow>
          (case valid_overlaps ovl of
             None \<Rightarrow> Inl (KeyError ovl)
           | Some resolver \<Rightarrow>
               (case combine_languages resolver flt first datasets of
                  Inl e \<Rightarrow> Inl e
                | Inr ls \<Rightarrow>
                    if ls = {} then Inl (ValueError ''No languages specified!'')
                    else Inr (sorted_list_of_set ls))))"

subsection \<open>The resolution pass\<close>

text \<open>
  Lines 217 to 226. The source is Python 2, where \<^verbatim>\<open>/\<close> on two integers is floor
  division, as \<open>div\<close> on \<open>int\<close> is.
\<close>

definition derive_log_every :: "'p configuration \<Rightarrow> 'p configuration" where
  "derive_log_every c =
     (if log_every c = 0 then
        (let c1 = c\<lparr>log_every := chainlength c div 10000\<rparr>
         in if log_every c1 = 0 then c1\<lparr>log_every := 1\<rparr> else c1)
      else c)"

text \<open>
  Lines 228 to 233. \<^verbatim>\<open>os.path.exists\<close> raises \<^verbatim>\<open>TypeError\<close> when it is given a
  list instead of a path.
\<close>

definition read_families ::
    "environment \<Rightarrow> 'p configuration \<Rightarrow> error + 'p configuration" where
  "read_families env c =
     (case families c of
        FamList fs \<Rightarrow> Inl (TypeError ''coercing to Unicode: need string or buffer, list found'')
      | FamStr s \<Rightarrow>
          Inr (c\<lparr>families := FamList
                 (if path_exists env s then map strip (read_lines env s)
                  else map strip (split_on CHR '','' s))\<rparr>))"

text \<open>Lines 236 to 239.\<close>

definition read_starting_tree :: "environment \<Rightarrow> 'p configuration \<Rightarrow> 'p configuration" where
  "read_starting_tree env c =
     (if path_exists env (starting_tree c)
      then c\<lparr>starting_tree := strip (read_text env (starting_tree c))\<rparr>
      else c)"

text \<open>
  Lines 245 to 251: the names in a language's classification are the components of the
  pairs on its ancestor chain.
\<close>

definition chain_names :: "(string \<times> string) list \<Rightarrow> string list" where
  "chain_names chain = concat (map (\<lambda>(n, g). [n, g]) chain)"

definition family_filter :: "classification \<Rightarrow> string list \<Rightarrow> string set" where
  "family_filter cls fams =
     {l \<in> set (map fst cls).
        \<exists>family \<in> set fams.
          family \<in> set (chain_names (case map_of cls l of None \<Rightarrow> [] | Some ch \<Rightarrow> ch))}"

definition determine_lang_filter :: "'p configuration \<Rightarrow> 'p configuration" where
  "determine_lang_filter c =
     (if families c = FamList [''*''] then c\<lparr>lang_filter := {}\<rparr>
      else c\<lparr>lang_filter :=
             family_filter (classifications c)
               (case families c of FamList fs \<Rightarrow> fs | FamStr s \<Rightarrow> map (\<lambda>ch. [ch]) s)\<rparr>)"

text \<open>A reference that the object store does not hold yet.\<close>

definition fresh_ref :: "(ref \<times> 'a) list \<Rightarrow> ref" where
  "fresh_ref h = foldr (\<lambda>(r, _) n. max (Suc r) n) h 0"

text \<open>
  Lines 261 to 283, one model section at a time. The constructors of the three model
  classes come from the environment.
\<close>

definition add_flag_message ::
    "string \<Rightarrow> string \<Rightarrow> 'p configuration \<Rightarrow> 'p configuration" where
  "add_flag_message flag notice c =
     (if flag \<notin> set (message_flags c)
      then c\<lparr>message_flags := message_flags c @ [flag], messages := messages c @ [notice]\<rparr>
      else c)"

definition config_name :: "model_config \<Rightarrow> string" where
  "config_name mc = (case map_of mc ''name'' of None \<Rightarrow> [] | Some n \<Rightarrow> n)"

definition register_model ::
    "string \<Rightarrow> model_config \<Rightarrow> model_obj \<Rightarrow> 'p configuration \<Rightarrow> 'p configuration" where
  "register_model kind mc model c =
     (let c1 = (if kind \<noteq> ''covarion''
                then c\<lparr>messages := messages c @
                       [''[DEPENDENCY] Model '' @ config_name mc @
                        '': AlignmentFromTrait is implemented in the BEAST package BEAST_CLASSIC.'']\<rparr>
                else c);
          c2 = c1\<lparr>messages := messages c1 @ m_messages model\<rparr>;
          r = fresh_ref (model_heap c2)
      in c2\<lparr>model_heap := model_heap c2 @ [(r, model)], models := models c2 @ [r]\<rparr>)"

definition instantiate_model ::
    "environment \<Rightarrow> model_config \<Rightarrow> 'p configuration \<Rightarrow> error + 'p configuration" where
  "instantiate_model env mc c =
     (case map_of mc ''model'' of
        None \<Rightarrow> Inl (ValueError (''Model not specified for model section '' @ config_name mc))
      | Some kind0 \<Rightarrow>
          (case map_of mc ''data'' of
             None \<Rightarrow>
               Inl (ValueError (''Data source not specified in model section '' @ config_name mc))
           | Some _ \<Rightarrow>
               (let kind = lower kind0 in
                if kind = ''bsvs'' then
                  (case make_model env kind mc of
                     Inl e \<Rightarrow> Inl e
                   | Inr model \<Rightarrow>
                       Inr (register_model kind mc model
                              (add_flag_message ''bsvs_used'' (bsvs_package_notice env) c)))
                else if kind = ''covarion'' then
                  (case make_model env kind mc of
                     Inl e \<Rightarrow> Inl e
                   | Inr model \<Rightarrow> Inr (register_model kind mc model c))
                else if kind = ''mk'' then
                  (case make_model env kind mc of
                     Inl e \<Rightarrow> Inl e
                   | Inr model \<Rightarrow>
                       Inr (register_model kind mc model
                              (add_flag_message ''mk_used'' (mk_package_notice env) c)))
                else Inl (ValueError (''Unknown model type '' @ kind0 @
                                      '' for model section '' @ config_name mc)))))"

fun instantiate_models ::
    "environment \<Rightarrow> model_config list \<Rightarrow> 'p configuration \<Rightarrow> error + 'p configuration" where
  "instantiate_models env [] c = Inr c"
| "instantiate_models env (mc # rest) c =
     (case instantiate_model env mc c of
        Inl e \<Rightarrow> Inl e
      | Inr c1 \<Rightarrow> instantiate_models env rest c1)"

text \<open>The language set of a model object: \<^verbatim>\<open>set(model.data.keys())\<close>.\<close>

definition model_languages :: "'p configuration \<Rightarrow> ref \<Rightarrow> string set" where
  "model_languages c r =
     (case map_of (model_heap c) r of None \<Rightarrow> {} | Some m \<Rightarrow> set (map fst (m_data m)))"

text \<open>Lines 213 to 215: the notice about the constrained random tree.\<close>

definition note_dependency :: "'p configuration \<Rightarrow> 'p configuration" where
  "note_dependency c =
     (if monophyly c \<and> starting_tree c = []
      then c\<lparr>messages := messages c @
             [''[DEPENDENCY] ConstrainedRandomTree is implemented in the BEAST package BEASTLabs.'']\<rparr>
      else c)"

text \<open>Lines 253 to 256: data from standard input replaces every model's data source.\<close>

definition set_stdin_data :: "'p configuration \<Rightarrow> 'p configuration" where
  "set_stdin_data c =
     (if stdin_data c
      then c\<lparr>model_configs := map (AList.update ''data'' ''stdin'') (model_configs c)\<rparr>
      else c)"

text \<open>Lines 241 to 283: classification, language filter and models.\<close>

definition load_models :: "environment \<Rightarrow> 'p configuration \<Rightarrow> error + 'p configuration" where
  "load_models env c =
     (case load_glotto_class env (glottolog_release c) of
        Inl e \<Rightarrow> Inl e
      | Inr cls \<Rightarrow>
          (let c1 = set_stdin_data (determine_lang_filter (c\<lparr>classifications := cls\<rparr>))
           in if model_configs c1 = [] then Inl (ValueError ''No models specified!'')
              else instantiate_models env (model_configs c1) (c1\<lparr>models := []\<rparr>)))"

text \<open>
  Lines 212 to 283 of \<^verbatim>\<open>process\<close>: everything before the language list is
  finalised.
\<close>

definition prepare :: "environment \<Rightarrow> 'p configuration \<Rightarrow> error + 'p configuration" where
  "prepare env c0 =
     (case read_families env (derive_log_every (note_dependency c0)) of
        Inl e \<Rightarrow> Inl e
      | Inr c \<Rightarrow> load_models env (read_starting_tree env c))"

text \<open>\<^verbatim>\<open>Configuration.process\<close>.\<close>

definition process :: "environment \<Rightarrow> 'p configuration \<Rightarrow> error + 'p configuration" where
  "process env c0 =
     (case prepare env c0 of
        Inl e \<Rightarrow> Inl e
      | Inr c \<Rightarrow>
          (case finalise_languages (overlap c) (lang_filter c)
                  (map (model_languages c) (models c)) of
             Inl e \<Rightarrow> Inl e
           | Inr ls \<Rightarrow>
               Inr (c\<lparr>languages := ls,
                      messages := messages c @
                        [''[INFO] '' @ str_nat (length ls) @ '' languages included in analysis.''],
                      processed := True\<rparr>)))"

section \<open>The document builder (beastxml.py)\<close>

text \<open>
  An ElementTree element: tag, attributes, text and children; \<^verbatim>\<open>ET.Comment\<close> is a
  node of its own. The source creates a child with \<^verbatim>\<open>ET.SubElement\<close> and fills it
  afterwards through the shared reference; here a child is built in full and then
  appended, which gives the same tree.
\<close>

datatype xml =
    Element (tag: string) (attrib: "(string \<times> string) list") (etext: string)
      (children: "xml list")
  | Comment string

fun append_child :: "xml \<Rightarrow> xml \<Rightarrow> xml" where
  "append_child (Element t a x cs) child = Element t a x (cs @ [child])"
| "append_child (Comment s) child = Comment s"

definition SubElement :: "xml \<Rightarrow> string \<Rightarrow> (string \<times> string) list \<Rightarrow> xml" where
  "SubElement parent t a = append_child parent (Element t a [] [])"

text \<open>\<^verbatim>\<open>str\<close> on an integer.\<close>

definition str_int :: "int \<Rightarrow> string" where
  "str_int i = (if i < 0 then CHR ''-'' # str_nat (nat (- i)) else str_nat (nat i))"

text \<open>
  What the builder takes from outside these sources: \<^verbatim>\<open>str\<close> on a float, the text
  of the provenance comment, the embedded copy of a data file, the table
  \<^verbatim>\<open>beast_maps.maps\<close>, and the methods of the model and clock classes, each of which
  receives a parent element and adds to it.
\<close>

record 'p collaborators =
  str_float :: "'p \<Rightarrow> string"
  beastling_comment :: "string option \<Rightarrow> string"
  format_data_file :: "string \<Rightarrow> xml"
  beast_maps :: "(string \<times> string) list"
  model_add_master_data :: "model_obj \<Rightarrow> xml \<Rightarrow> xml"
  model_add_misc :: "model_obj \<Rightarrow> xml \<Rightarrow> xml"
  model_add_state :: "model_obj \<Rightarrow> xml \<Rightarrow> xml"
  model_add_prior :: "model_obj \<Rightarrow> xml \<Rightarrow> xml"
  model_add_likelihood :: "model_obj \<Rightarrow> xml \<Rightarrow> xml"
  model_add_operators :: "model_obj \<Rightarrow> xml \<Rightarrow> xml"
  model_add_param_logs :: "model_obj \<Rightarrow> xml \<Rightarrow> xml"
  clock_add_branchrate_model :: "clock_obj \<Rightarrow> xml \<Rightarrow> xml"
  clock_add_state :: "clock_obj \<Rightarrow> xml \<Rightarrow> xml"
  clock_add_prior :: "clock_obj \<Rightarrow> xml \<Rightarrow> xml"
  clock_add_operators :: "clock_obj \<Rightarrow> xml \<Rightarrow> xml"
  clock_add_param_logs :: "clock_obj \<Rightarrow> xml \<Rightarrow> xml"

text \<open>The objects behind a list of references, in the order of the list.\<close>

definition model_objs :: "'p configuration \<Rightarrow> ref list \<Rightarrow> model_obj list" where
  "model_objs c rs = List.map_filter (map_of (model_heap c)) rs"

definition clock_objs :: "'p configuration \<Rightarrow> ref list \<Rightarrow> clock_obj list" where
  "clock_objs c rs = List.map_filter (map_of (clock_heap c)) rs"

subsection \<open>The taxon set cache\<close>

text \<open>
  \<^verbatim>\<open>self._taxon_sets\<close> maps the identifier of a defined taxon set to its set of
  languages. The dictionary is an association list in insertion order; assigning to a
  key that is present replaces its value.
\<close>

type_synonym taxon_sets = "(string \<times> string set) list"

text \<open>
  \<^verbatim>\<open>add_taxon_set(parent, label, langs, define_taxa)\<close>: the parent with the new child,
  and the cache.
\<close>

definition add_taxon_set ::
    "taxon_sets \<Rightarrow> xml \<Rightarrow> string \<Rightarrow> string list \<Rightarrow> bool \<Rightarrow> xml \<times> taxon_sets" where
  "add_taxon_set reg parent label ls define_taxa =
     (case find (\<lambda>(idref, taxa). set ls = taxa) reg of
        Some (idref, taxa) \<Rightarrow>
          (SubElement parent ''taxonset'' [(''idref'', idref), (''spec'', ''TaxonSet'')], reg)
      | None \<Rightarrow>
          (let taxon = Element ''taxon''
                 [(if define_taxa then ''id'' else ''idref'', ''$(language)'')] [] [];
               plate = Element ''plate''
                 [(''var'', ''language''), (''range'', join '','' ls)] [] [taxon];
               taxonset = Element ''taxonset''
                 [(''id'', label), (''spec'', ''TaxonSet'')] [] [plate]
           in (append_child parent taxonset, AList.update label (set ls) reg)))"

subsection \<open>State and tree initialiser\<close>

text \<open>\<^verbatim>\<open>add_tree_state\<close>: the state element with the tree and the birth rate.\<close>

definition add_tree_state ::
    "'p configuration \<Rightarrow> taxon_sets \<Rightarrow> xml \<Rightarrow> xml \<times> taxon_sets" where
  "add_tree_state c reg state =
     (let tree0 = Element ''tree''
            [(''id'', ''Tree.t:beastlingTree''), (''name'', ''stateNode'')] [] [];
          (tree, reg1) = add_taxon_set reg tree0 ''taxa'' (languages c) True;
          param = Element ''parameter''
            [(''id'', ''birthRate.t:beastlingTree''), (''name'', ''stateNode'')] ''1.0'' []
      in (append_child (append_child state tree) param, reg1))"


definition popmod :: xml where
  "popmod = Element ''populationModel'' [(''spec'', ''ConstantPopulation'')] []
       [Element ''popSize'' [(''spec'', ''parameter.RealParameter''), (''value'', ''1'')] [] []]"

definition add_randomtree_init :: "xml \<Rightarrow> xml" where
  "add_randomtree_init run =
     append_child run (Element ''init''
       [(''estimate'', ''false''), (''id'', ''startingTree''),
        (''initial'', ''@Tree.t:beastlingTree''), (''taxonset'', ''@taxa''),
        (''spec'', ''beast.evolution.tree.RandomTree'')] [] [popmod])"

definition add_simplerandomtree_init :: "xml \<Rightarrow> xml" where
  "add_simplerandomtree_init run =
     SubElement run ''init''
       [(''estimate'', ''false''), (''id'', ''startingTree''),
        (''initial'', ''@Tree.t:beastlingTree''), (''taxonset'', ''@taxa''),
        (''spec'', ''beast.evolution.tree.SimpleRandomTree'')]"

definition add_constrainedrandomtree_init :: "xml \<Rightarrow> xml" where
  "add_constrainedrandomtree_init run =
     append_child run (Element ''init''
       [(''estimate'', ''false''), (''id'', ''startingTree''),
        (''initial'', ''@Tree.t:beastlingTree''), (''taxonset'', ''@taxa''),
        (''spec'', ''beast.evolution.tree.ConstrainedRandomTree''),
        (''constraints'', ''@constraints'')] [] [popmod])"

text \<open>\<^verbatim>\<open>add_init\<close>. A string is true in a condition when it is not empty.\<close>

definition add_init :: "'p configuration \<Rightarrow> xml \<Rightarrow> xml" where
  "add_init c run =
     (if starting_tree c \<noteq> [] then
        SubElement run ''init''
          [(''estimate'', ''false''), (''id'', ''startingTree''),
           (''initial'', ''@Tree.t:beastlingTree''), (''spec'', ''beast.util.TreeParser''),
           (''IsLabelledNewick'', ''true''), (''newick'', starting_tree c)]
      else if monophyly c \<and> length (languages c) > 2 then add_constrainedrandomtree_init run
      else if list_ex (\<lambda>cal. dist cal = ''uniform'') (map snd (calibrations c))
        then add_simplerandomtree_init run
      else add_randomtree_init run)"

subsection \<open>Prior and likelihood\<close>


text \<open>The three dictionaries of \<^verbatim>\<open>add_calibrations\<close>; a missing key is a \<^verbatim>\<open>KeyError\<close>.\<close>

definition lookup :: "(string \<times> 'a) list \<Rightarrow> string \<Rightarrow> error + 'a" where
  "lookup d k = (case map_of d k of None \<Rightarrow> Inl (KeyError k) | Some v \<Rightarrow> Inr v)"

definition p1_names :: "(string \<times> string) list" where
  "p1_names = [(''Normal'', ''mean''), (''LogNormal'', ''M''), (''Uniform'', ''lower'')]"

definition p2_names :: "(string \<times> string) list" where
  "p2_names = [(''Normal'', ''sigma''), (''LogNormal'', ''S''), (''Uniform'', ''upper'')]"

definition dist_types :: "(string \<times> string) list" where
  "dist_types = [(''normal'', ''Normal''), (''lognormal'', ''LogNormal''), (''uniform'', ''Uniform'')]"

text \<open>The \<^verbatim>\<open>distr\<close> child of a calibration (lines 236 to 244).\<close>

definition calibration_distribution ::
    "('p \<Rightarrow> string) \<Rightarrow> string \<Rightarrow> 'p calibration \<Rightarrow> error + xml" where
  "calibration_distribution str clade cal =
     (case lookup dist_types (dist cal) of
        Inl e \<Rightarrow> Inl e
      | Inr dist_type \<Rightarrow>
          (let attribs = [(''id'', ''CalibrationDistribution.'' @ clade), (''name'', ''distr''),
                          (''offset'', ''0.0'')] @
                 (if dist_type = ''Uniform''
                  then [(''lower'', str (param1 cal)), (''upper'', str (param2 cal))] else [])
           in if dist_type \<noteq> ''Uniform'' then
                (case lookup p1_names dist_type of
                   Inl e \<Rightarrow> Inl e
                 | Inr n1 \<Rightarrow>
                     (case lookup p2_names dist_type of
                        Inl e \<Rightarrow> Inl e
                      | Inr n2 \<Rightarrow>
                          Inr (Element dist_type attribs []
                            [Element ''parameter''
                               [(''id'', ''CalibrationDistribution.'' @ clade @ ''.param1''),
                                (''name'', n1), (''estimate'', ''false'')] (str (param1 cal)) [],
                             Element ''parameter''
                               [(''id'', ''CalibrationDistribution.'' @ clade @ ''.param2''),
                                (''name'', n2), (''estimate'', ''false'')] (str (param2 cal)) []])))
              else Inr (Element dist_type attribs [] [])))"

text \<open>One turn of the loop of \<^verbatim>\<open>add_calibrations\<close>: the prior node of a calibration.\<close>

definition add_calibration ::
    "('p \<Rightarrow> string) \<Rightarrow> taxon_sets \<Rightarrow> xml \<Rightarrow> string \<Rightarrow> 'p calibration \<Rightarrow>
     error + xml \<times> taxon_sets" where
  "add_calibration str reg prior clade cal =
     (let attribs = [(''id'', clade @ ''MRCA''), (''monophyletic'', ''true''),
                     (''spec'', ''beast.math.distributions.MRCAPrior''),
                     (''tree'', ''@Tree.t:beastlingTree'')] @
            (if originate cal then [(''useOriginate'', ''true'')] else []);
          cal_prior0 = Element ''distribution'' attribs [] [];
          taxonsetname = (if endswith clade ''_originate''
                          then take (length clade - length ''_originate'') clade else clade);
          (cal_prior1, reg1) = add_taxon_set reg cal_prior0 taxonsetname (langs cal) False
      in case calibration_distribution str clade cal of
           Inl e \<Rightarrow> Inl e
         | Inr d \<Rightarrow> Inr (append_child prior (append_child cal_prior1 d), reg1))"

fun add_calibrations_loop ::
    "('p \<Rightarrow> string) \<Rightarrow> taxon_sets \<Rightarrow> xml \<Rightarrow> (string \<times> 'p calibration) list \<Rightarrow>
     error + xml \<times> taxon_sets" where
  "add_calibrations_loop str reg prior [] = Inr (prior, reg)"
| "add_calibrations_loop str reg prior ((clade, cal) # rest) =
     (case add_calibration str reg prior clade cal of
        Inl e \<Rightarrow> Inl e
      | Inr (prior1, reg1) \<Rightarrow> add_calibrations_loop str reg1 prior1 rest)"

text \<open>
  \<^verbatim>\<open>add_calibrations\<close>. The calibrations are a dictionary, so the clade labels of the
  list are distinct and \<^verbatim>\<open>sorted(items())\<close> orders by label.
\<close>

definition add_calibrations ::
    "('p \<Rightarrow> string) \<Rightarrow> 'p configuration \<Rightarrow> taxon_sets \<Rightarrow> xml \<Rightarrow> error + xml \<times> taxon_sets" where
  "add_calibrations str c reg prior =
     add_calibrations_loop str reg prior (sort_key fst (calibrations c))"





subsection \<open>Operators\<close>







subsection \<open>Loggers\<close>

definition add_screen_logger :: "'p configuration \<Rightarrow> xml \<Rightarrow> xml" where
  "add_screen_logger c run =
     (if \<not> screenlog c then run
      else append_child run (Element ''logger''
             [(''id'', ''screenlog''), (''logEvery'', str_int (log_every c))] []
             [Element ''log'' [(''arg'', ''@posterior''), (''id'', ''ESS.0''), (''spec'', ''util.ESS'')] [] [],
              Element ''log'' [(''idref'', ''prior'')] [] [],
              Element ''log'' [(''idref'', ''likelihood'')] [] [],
              Element ''log'' [(''idref'', ''posterior'')] [] []]))"

definition add_tracer_logger :: "'p collaborators \<Rightarrow> 'p configuration \<Rightarrow> xml \<Rightarrow> xml" where
  "add_tracer_logger co c run =
     (if \<not> (log_probabilities c \<or> log_params c \<or> log_all c) then run
      else
        (let t0 = Element ''logger''
               [(''id'', ''tracelog''), (''fileName'', basename c @ ''.log''),
                (''logEvery'', str_int (log_every c)), (''sort'', ''smart'')] [] [];
             t1 = (if log_probabilities c \<or> log_all c
                   then fold (\<lambda>i t. SubElement t ''log'' [(''idref'', i)])
                          [''prior'', ''likelihood'', ''posterior''] t0
                   else t0);
             t2 = (if log_params c \<or> log_all c
                   then fold (model_add_param_logs co) (model_objs c (all_models c))
                          (fold (clock_add_param_logs co) (clock_objs c (clocks c))
                             (SubElement t1 ''log'' [(''idref'', ''birthRate.t:beastlingTree'')]))
                   else t1);
             t3 = (if \<not> tree_logging_pointless c
                   then SubElement t2 ''log''
                          [(''id'', ''treeHeight''),
                           (''spec'', ''beast.evolution.tree.TreeHeightLogger''),
                           (''tree'', ''@Tree.t:beastlingTree'')]
                   else t2);
             t4 = fold (\<lambda>clade t. SubElement t ''log'' [(''idref'', clade @ ''MRCA'')])
                    (sort (map fst (calibrations c))) t3;
             t5 = (if log_fine_probs c
                   then fold (\<lambda>i t. SubElement t ''log'' [(''idref'', i)])
                          [''YuleModel.t:beastlingTree'', ''YuleBirthRatePrior.t:beastlingTree''] t4
                   else t4)
         in append_child run t5))"

text \<open>
  \<^verbatim>\<open>add_tree_logger(suffix, branchrate_model_id, locations)\<close>; no branch rate model is
  the empty identifier.
\<close>

definition add_tree_logger :: "'p configuration \<Rightarrow> string \<Rightarrow> string \<Rightarrow> bool \<Rightarrow> xml \<Rightarrow> xml" where
  "add_tree_logger c suffix branchrate_model_id locations run =
     append_child run (Element ''logger''
       [(''mode'', ''tree''), (''fileName'', basename c @ suffix @ ''.nex''),
        (''logEvery'', str_int (log_every c)), (''id'', ''treeLogger'' @ suffix)] []
       [Element ''log''
          [(''id'', ''TreeLoggerWithMetaData'' @ suffix),
           (''spec'', ''beast.evolution.tree.TreeWithMetaDataLogger''),
           (''tree'', ''@Tree.t:beastlingTree'')] []
          ((if branchrate_model_id \<noteq> []
            then [Element ''branchratemodel'' [(''idref'', branchrate_model_id)] [] []] else []) @
           (if locations
            then [Element ''metadata''
                    [(''id'', ''location''), (''spec'', ''sphericalGeo.TraitFunction''),
                     (''likelihood'', ''@sphericalGeographyLikelihood'')] ''0.0'' []]
            else []))])"

text \<open>
  \<^verbatim>\<open>add_tree_loggers\<close>. The non-strict clocks form a Python set of objects; they are
  taken here in the order of their first use by a model.
\<close>

definition add_tree_loggers :: "'p configuration \<Rightarrow> xml \<Rightarrow> xml" where
  "add_tree_loggers c run0 =
     (if \<not> ((log_trees c \<or> log_all c) \<and> \<not> tree_logging_pointless c) then run0
      else
        (let non_strict_clocks =
               remdups (filter
                 (\<lambda>r. case map_of (clock_heap c) r of None \<Rightarrow> False | Some k \<Rightarrow> \<not> c_is_strict k)
                 (map m_clock (model_objs c (models c))));
             pure_tree_done = (non_strict_clocks = []);
             run1 = (if non_strict_clocks = [] then add_tree_logger c [] [] False run0
                     else fold (\<lambda>clock r.
                            if length non_strict_clocks = 1
                            then add_tree_logger c [] (c_branchrate_model_id clock) False r
                            else add_tree_logger c (''_'' @ c_name clock @ ''_rates'')
                                   (c_branchrate_model_id clock) False r)
                          (clock_objs c non_strict_clocks) run0);
             run2 = (if log_pure_tree c \<and> \<not> pure_tree_done
                     then add_tree_logger c ''_pure'' [] False run1 else run1)
         in case geo_config c of
              None \<Rightarrow> run2
            | Some log_locations \<Rightarrow>
                (case map_of (model_heap c) (geo_model c) of
                   None \<Rightarrow> run2
                 | Some gm \<Rightarrow>
                     (case map_of (clock_heap c) (m_clock gm) of
                        None \<Rightarrow> run2
                      | Some gk \<Rightarrow>
                          if log_locations \<or> \<not> c_is_strict gk
                          then add_tree_logger c ''_geography'' (c_branchrate_model_id gk) True run2
                          else run2))))"

definition add_loggers :: "'p collaborators \<Rightarrow> 'p configuration \<Rightarrow> xml \<Rightarrow> xml" where
  "add_loggers co c run =
     add_tree_loggers c (add_tracer_logger co c (add_screen_logger c run))"

subsection \<open>The whole document\<close>






text \<open>
  The builder object. \<^verbatim>\<open>BeastXml.__init__\<close> processes a configuration that is not
  processed yet, writes the back-reference \<^verbatim>\<open>beastxml\<close> into every model of
  \<^verbatim>\<open>all_models\<close> and every clock of \<^verbatim>\<open>clocks\<close>, starts with an empty taxon set
  cache and builds the document.
\<close>

record 'p BeastXml =
  config :: "'p configuration"
  covarion_userdatatype_created :: bool
  taxon_sets :: taxon_sets
  beast :: xml



section \<open>Reading data files (fileio/datareaders.py)\<close>

text \<open>
  A \<^verbatim>\<open>UnicodeDictReader\<close> that has been opened: the field names of the header and one
  dictionary per record. The result of loading is a dictionary from language to a
  dictionary from feature to value, in insertion order.
\<close>

record reader =
  fieldnames :: "string list"
  rows :: "(string \<times> string) list list"

type_synonym dataset = "(string \<times> (string \<times> string) list) list"

definition language_column_names :: "string list" where
  "language_column_names =
     [''iso'', ''iso_code'', ''glotto'', ''glottocode'', ''language'', ''language_id'',
      ''lang'', ''lang_id'']"

text \<open>The loop of \<^verbatim>\<open>load_beastling_data\<close> over the records (lines 68 to 71).\<close>

fun load_beastling_rows ::
    "string \<Rightarrow> string \<Rightarrow> dataset \<Rightarrow> (string \<times> string) list list \<Rightarrow> error + dataset" where
  "load_beastling_rows lang_column filename data [] = Inr data"
| "load_beastling_rows lang_column filename data (row # rest) =
     (case lookup row lang_column of
        Inl e \<Rightarrow> Inl e
      | Inr l \<Rightarrow>
          if l \<in> set (map fst data)
          then Inl (ValueError (''Duplicated language identifier '' @ l @
                                '' found in data file '' @ filename))
          else load_beastling_rows lang_column filename (AList.update l row data) rest)"

text \<open>
  \<^verbatim>\<open>load_beastling_data\<close>. The language column is \<^verbatim>\<open>None\<close> or a string; both
  \<^verbatim>\<open>None\<close> and the empty string are false in a condition.
\<close>

definition load_beastling_data :: "reader \<Rightarrow> string option \<Rightarrow> string \<Rightarrow> error + dataset" where
  "load_beastling_data rd lang_column filename =
     (let lc = (if lang_column = None \<or> lang_column = Some []
                then (case find (\<lambda>candidate. lower candidate \<in> set language_column_names)
                             (fieldnames rd) of
                        None \<Rightarrow> lang_column
                      | Some candidate \<Rightarrow> Some candidate)
                else lang_column)
      in case lc of
           None \<Rightarrow> Inl (ValueError (''Cold not find language column in data file '' @ filename))
         | Some col \<Rightarrow>
             if col = [] \<or> col \<notin> set (fieldnames rd)
             then Inl (ValueError (''Cold not find language column in data file '' @ filename))
             else load_beastling_rows col filename [] (rows rd))"

text \<open>The loop of \<^verbatim>\<open>load_cldf_data\<close> over the records (lines 81 to 85).\<close>

fun load_cldf_rows ::
    "string \<Rightarrow> dataset \<Rightarrow> (string \<times> string) list list \<Rightarrow> error + dataset" where
  "load_cldf_rows feature_column data [] = Inr data"
| "load_cldf_rows feature_column data (row # rest) =
     (case lookup row ''Language_ID'' of
        Inl e \<Rightarrow> Inl e
      | Inr l \<Rightarrow>
          (let data1 = (if l \<notin> set (map fst data) then AList.update l [] data else data)
           in case lookup row feature_column of
                Inl e \<Rightarrow> Inl e
              | Inr f \<Rightarrow>
                  (case lookup row ''Value'' of
                     Inl e \<Rightarrow> Inl e
                   | Inr v \<Rightarrow>
                       load_cldf_rows feature_column
                         (AList.update l
                            (AList.update f v (case map_of data1 l of None \<Rightarrow> [] | Some d \<Rightarrow> d))
                            data1)
                         rest)))"

definition load_cldf_data :: "reader \<Rightarrow> error + dataset" where
  "load_cldf_data rd =
     load_cldf_rows
       (if ''Feature_ID'' \<in> set (fieldnames rd) then ''Feature_ID'' else ''Parameter_ID'')
       [] (rows rd)"

text \<open>
  The part of \<^verbatim>\<open>load_data\<close> that follows the opening of the file (lines 39 to 53):
  guess the format when none is given, then load.
\<close>

definition load_data_from ::
    "reader \<Rightarrow> string option \<Rightarrow> string option \<Rightarrow> string \<Rightarrow> error + dataset" where
  "load_data_from rd file_format lang_column filename =
     (let fmt = (case file_format of
                   None \<Rightarrow>
                     if list_all (\<lambda>f. f \<in> set (fieldnames rd)) [''Language_ID'', ''Value''] \<and>
                        list_ex (\<lambda>f. f \<in> set (fieldnames rd)) [''Feature_ID'', ''Parameter_ID'']
                     then ''cldf'' else ''beastling''
                 | Some f \<Rightarrow> f)
      in if fmt = ''cldf'' then load_cldf_data rd
         else if fmt = ''beastling'' then load_beastling_data rd lang_column filename
         else Inl (ValueError (''File format specification '' @ fmt @ '' not understood'')))"

section \<open>The command line (cli.py)\<close>

text \<open>
  What is raised inside a \<^verbatim>\<open>try\<close> of cli.py is caught when it derives from
  \<^verbatim>\<open>Exception\<close> (\<^verbatim>\<open>wrap_errors\<close>); \<^verbatim>\<open>sys.exit\<close> raises \<^verbatim>\<open>SystemExit\<close>, which does
  not, so a call of \<^verbatim>\<open>exit\<close> ends the run with its status.
\<close>

datatype raised = Exception string | NonException string

datatype outcome = Exit int | Uncaught raised

record args =
  a_config :: "string list"
  a_extract :: bool
  a_report :: bool
  a_language_list :: bool
  a_output :: "string option"
  a_overwrite :: bool
  a_stdin :: bool
  a_prior :: bool
  a_verbose :: bool

text \<open>
  The collaborators of the command line: the file system, the configuration class, the
  builder, the extractor and the writers of the output files.
\<close>

record ('c, 'x) world =
  file_exists :: "string \<Rightarrow> bool"
  new_Configuration :: "args \<Rightarrow> raised + 'c"
  admin_xml_path :: "'c \<Rightarrow> string"
  config_process :: "'c \<Rightarrow> raised + 'c"
  new_BeastXml :: "'c \<Rightarrow> raised + 'x"
  write_file :: "'x \<Rightarrow> string \<Rightarrow> raised option"
  write_report :: "'c \<Rightarrow> string \<Rightarrow> raised option"
  write_language_list :: "'c \<Rightarrow> raised option"
  run_extract :: "string \<Rightarrow> bool \<Rightarrow> raised + string list"

text \<open>
  \<^verbatim>\<open>do_extract\<close> and \<^verbatim>\<open>do_generate\<close>: \<open>None\<close> when the function returns, otherwise how
  the run ended.
\<close>

definition do_extract :: "('c, 'x) world \<Rightarrow> args \<Rightarrow> outcome option" where
  "do_extract w a =
     (if length (a_config a) \<noteq> 1 then Some (Exit 1)
      else if \<not> file_exists w (hd (a_config a)) then Some (Exit 2)
      else (case run_extract w (hd (a_config a)) (a_overwrite a) of
              Inl (Exception m) \<Rightarrow> Some (Exit 3)
            | Inl (NonException m) \<Rightarrow> Some (Uncaught (NonException m))
            | Inr msgs \<Rightarrow> None))"

definition after_build :: "('c, 'x) world \<Rightarrow> args \<Rightarrow> 'c \<Rightarrow> 'x \<Rightarrow> string \<Rightarrow> outcome option" where
  "after_build w a c x output_filename =
     (case write_file w x output_filename of
        Some r \<Rightarrow> Some (Uncaught r)
      | None \<Rightarrow>
          (case (if a_report a then write_report w c output_filename else None) of
             Some r \<Rightarrow> Some (Uncaught r)
           | None \<Rightarrow>
               (case (if a_language_list a then write_language_list w c else None) of
                  Some r \<Rightarrow> Some (Uncaught r)
                | None \<Rightarrow> None)))"

text \<open>
  The output file: \<^verbatim>\<open>args.output\<close> when it is given and not empty, otherwise the
  path that the configuration derives from its base name.
\<close>

definition output_filename :: "('c, 'x) world \<Rightarrow> args \<Rightarrow> 'c \<Rightarrow> string" where
  "output_filename w a c =
     (case a_output a of
        None \<Rightarrow> admin_xml_path w c
      | Some out \<Rightarrow> if out \<noteq> [] then out else admin_xml_path w c)"

definition do_generate :: "('c, 'x) world \<Rightarrow> args \<Rightarrow> outcome option" where
  "do_generate w a =
     (if list_ex (\<lambda>conf. \<not> file_exists w conf) (a_config a) then Some (Exit 1)
      else
        (case new_Configuration w a of
           Inl (Exception m) \<Rightarrow> Some (Exit 2)
         | Inl (NonException m) \<Rightarrow> Some (Uncaught (NonException m))
         | Inr c \<Rightarrow>
             if file_exists w (output_filename w a c) \<and> \<not> a_overwrite a then Some (Exit 4)
             else
               (case config_process w c of
                  Inl (Exception m) \<Rightarrow> Some (Exit 2)
                | Inl (NonException m) \<Rightarrow> Some (Uncaught (NonException m))
                | Inr c1 \<Rightarrow>
                    (case new_BeastXml w c1 of
                       Inl (Exception m) \<Rightarrow> Some (Exit 3)
                     | Inl (NonException m) \<Rightarrow> Some (Uncaught (NonException m))
                     | Inr x \<Rightarrow> after_build w a c1 x (output_filename w a c)))))"

text \<open>\<^verbatim>\<open>main\<close>, after the arguments have been parsed.\<close>

definition main :: "('c, 'x) world \<Rightarrow> args \<Rightarrow> outcome" where
  "main w a =
     (case (if a_extract a then do_extract w a else do_generate w a) of
        Some out \<Rightarrow> out
      | None \<Rightarrow> Exit 0)"

section \<open>Example inputs\<close>

text \<open>
  A small environment without files: two data sources, \<^verbatim>\<open>one.csv\<close> with the
  languages aaa and bbb and \<^verbatim>\<open>two.csv\<close> with bbb and ccc, and a classification
  that puts aaa into the family Fam and ccc into the family Other.
\<close>

definition example_model :: "string \<Rightarrow> model_config \<Rightarrow> error + model_obj" where
  "example_model kind mc =
     (case map_of mc ''data'' of
        None \<Rightarrow> Inl (ValueError ''no data'')
      | Some f \<Rightarrow>
          Inr \<lparr>m_name = config_name mc,
               m_data = (if f = ''one.csv'' then [(''aaa'', []), (''bbb'', [])]
                         else if f = ''two.csv'' then [(''bbb'', []), (''ccc'', [])]
                         else []),
               m_data_filename = f, m_messages = [], m_rate_variation = False, m_clock = 0,
               m_features = [], m_weights = [], m_beastxml = False\<rparr>)"

definition example_env :: environment where
  "example_env =
     \<lparr>path_exists = (\<lambda>p. False), read_lines = (\<lambda>p. []), read_text = (\<lambda>p. []),
      load_glotto_class =
        (\<lambda>release. Inr [(''aaa'', [(''Fam'', ''fam1'')]), (''ccc'', [(''Other'', ''othe1'')])]),
      make_model = example_model, bsvs_package_notice = ''bsvs'', mk_package_notice = ''mk''\<rparr>"

definition example_config :: "int configuration" where
  "example_config =
     (Configuration_init ''beastling'' False)
       \<lparr>overlap := ''union'',
        model_configs := [[(''name'', ''one''), (''model'', ''mk''), (''data'', ''one.csv'')],
                          [(''name'', ''two''), (''model'', ''covarion''), (''data'', ''two.csv'')]]\<rparr>"



text \<open>A logging interval and a chain length below zero, as \<^verbatim>\<open>getint\<close> accepts them.\<close>

definition negative_log_every_config :: "int configuration" where
  "negative_log_every_config = example_config\<lparr>log_every := - 5\<rparr>"

definition negative_chainlength_config :: "int configuration" where
  "negative_chainlength_config = example_config\<lparr>chainlength := - 1\<rparr>"

text \<open>
  One data source, \<^verbatim>\<open>one.csv\<close> with the languages aaa and bbb, combined by union:
  once restricted to the family Other, to which only ccc belongs, and once to a family
  that no language belongs to.
\<close>

definition other_family_config :: "int configuration" where
  "other_family_config =
     (Configuration_init ''beastling'' False)
       \<lparr>overlap := ''union'', families := FamStr ''Other'',
        model_configs := [[(''name'', ''one''), (''model'', ''mk''), (''data'', ''one.csv'')]]\<rparr>"

definition unknown_family_config :: "int configuration" where
  "unknown_family_config =
     (Configuration_init ''beastling'' False)
       \<lparr>overlap := ''union'', families := FamStr ''Nowhere'',
        model_configs := [[(''name'', ''one''), (''model'', ''mk''), (''data'', ''one.csv'')]]\<rparr>"

text \<open>
  A command line world in which no file exists and every step succeeds.
\<close>

definition empty_world :: "(unit, unit) world" where
  "empty_world =
     \<lparr>file_exists = (\<lambda>p. False), new_Configuration = (\<lambda>a. Inr ()),
      admin_xml_path = (\<lambda>c. ''beastling.xml''), config_process = (\<lambda>c. Inr ()),
      new_BeastXml = (\<lambda>c. Inr ()), write_file = (\<lambda>x p. None),
      write_report = (\<lambda>c p. None), write_language_list = (\<lambda>c. None),
      run_extract = (\<lambda>p ov. Inr [])\<rparr>"

definition extract_args :: args where
  "extract_args =
     \<lparr>a_config = [''analysis.xml''], a_extract = True, a_report = False,
      a_language_list = False, a_output = None, a_overwrite = False, a_stdin = False,
      a_prior = False, a_verbose = False\<rparr>"

text \<open>
  Collaborators for the builder examples: models and clocks that add nothing to the
  document, and calibration parameters that are integers.
\<close>

definition example_collaborators :: "int collaborators" where
  "example_collaborators =
     \<lparr>str_float = str_int, beastling_comment = (\<lambda>f. ''Generated by BEASTling''),
      format_data_file = (\<lambda>f. Comment f), beast_maps = [],
      model_add_master_data = (\<lambda>m p. p), model_add_misc = (\<lambda>m p. p),
      model_add_state = (\<lambda>m p. p), model_add_prior = (\<lambda>m p. p),
      model_add_likelihood = (\<lambda>m p. p), model_add_operators = (\<lambda>m p. p),
      model_add_param_logs = (\<lambda>m p. p), clock_add_branchrate_model = (\<lambda>k p. p),
      clock_add_state = (\<lambda>k p. p), clock_add_prior = (\<lambda>k p. p),
      clock_add_operators = (\<lambda>k p. p), clock_add_param_logs = (\<lambda>k p. p)\<rparr>"

text \<open>
  A CLDF file with two records for the language aaa, and a BEASTling file that lists the
  language aaa twice.
\<close>

definition cldf_reader :: reader where
  "cldf_reader =
     \<lparr>fieldnames = [''Language_ID'', ''Feature_ID'', ''Value''],
      rows = [[(''Language_ID'', ''aaa''), (''Feature_ID'', ''f1''), (''Value'', ''1'')],
              [(''Language_ID'', ''aaa''), (''Feature_ID'', ''f2''), (''Value'', ''0'')],
              [(''Language_ID'', ''aaa''), (''Feature_ID'', ''f1''), (''Value'', ''2'')]]\<rparr>"

definition beastling_reader :: reader where
  "beastling_reader =
     \<lparr>fieldnames = [''iso'', ''f1''],
      rows = [[(''iso'', ''aaa''), (''f1'', ''1'')],
              [(''iso'', ''bbb''), (''f1'', ''0'')],
              [(''iso'', ''aaa''), (''f1'', ''2'')]]\<rparr>"

text \<open>
  A processed configuration of three languages with one model, one clock and three
  calibrations: two with the same two languages under different labels, and one on the
  origin of all three languages.
\<close>

definition built_config :: "int configuration" where
  "built_config =
     (Configuration_init ''beastling'' False)
       \<lparr>processed := True, families := FamList [''*''], log_every := 1000,
        languages := [''aaa'', ''bbb'', ''ccc''],
        calibrations :=
          [(''west'', \<lparr>langs = [''aaa'', ''bbb''], dist = ''normal'', param1 = 1000,
                       param2 = 50, originate = False\<rparr>),
           (''east'', \<lparr>langs = [''bbb'', ''aaa''], dist = ''uniform'', param1 = 500,
                       param2 = 900, originate = False\<rparr>),
           (''all_originate'', \<lparr>langs = [''ccc'', ''aaa'', ''bbb''], dist = ''lognormal'',
                                param1 = 7, param2 = 1, originate = True\<rparr>)],
        models := [0], all_models := [0], clocks := [0],
        model_heap :=
          [(0, \<lparr>m_name = ''one'',
                 m_data = [(''aaa'', []), (''bbb'', []), (''ccc'', [])],
                 m_data_filename = ''one.csv'', m_messages = [], m_rate_variation = False,
                 m_clock = 0, m_features = [], m_weights = [], m_beastxml = False\<rparr>)],
        clock_heap :=
          [(0, \<lparr>c_name = ''default'', c_is_strict = True,
                 c_mean_rate_id = ''clockRate.c:default'',
                 c_branchrate_model_id = ''StrictClockModel.c:default'',
                 c_beastxml = False\<rparr>)]\<rparr>"

text \<open>
  The contract of a collaborator that receives a parent element: it keeps the element
  and appends children to it.
\<close>

definition adds_children :: "(xml \<Rightarrow> xml) \<Rightarrow> bool" where
  "adds_children h = (\<forall>t a x cs. \<exists>new. h (Element t a x cs) = Element t a x (cs @ new))"

text \<open>
  A step of the builder that appends to the run element nothing but logger nodes with
  the logging interval of the configuration.
\<close>

definition writes_loggers :: "'p configuration \<Rightarrow> (xml \<Rightarrow> xml) \<Rightarrow> bool" where
  "writes_loggers c h =
     (\<forall>t a x cs. \<exists>es. h (Element t a x cs) = Element t a x (cs @ es) \<and>
        (\<forall>e \<in> set es. tag e = ''logger'' \<and>
           map_of (attrib e) ''logEvery'' = Some (str_int (log_every c))))"

text \<open>
  What a loaded dataset says about a language and a feature, and what the records of a
  CLDF file say about them: the value of the last record for that language and feature.
\<close>

definition dataset_value :: "dataset \<Rightarrow> string \<Rightarrow> string \<Rightarrow> string option" where
  "dataset_value data l f = (case map_of data l of None \<Rightarrow> None | Some d \<Rightarrow> map_of d f)"

fun cldf_values ::
    "string \<Rightarrow> (string \<times> string) list list \<Rightarrow> string \<Rightarrow> string \<Rightarrow> string option" where
  "cldf_values feature_column [] l f = None"
| "cldf_values feature_column (row # rest) l f =
     (case cldf_values feature_column rest l f of
        Some v \<Rightarrow> Some v
      | None \<Rightarrow>
          if map_of row ''Language_ID'' = Some l \<and> map_of row feature_column = Some f
          then map_of row ''Value'' else None)"

text \<open>
  A request is a label, a list of languages and the flag \<^verbatim>\<open>define_taxa\<close>. The calls of
  \<^verbatim>\<open>add_taxon_set\<close> for a list of requests, all on the same parent and threading the
  cache:
\<close>

type_synonym request = "string \<times> string list \<times> bool"

fun add_taxon_sets :: "taxon_sets \<Rightarrow> xml \<Rightarrow> request list \<Rightarrow> xml \<times> taxon_sets" where
  "add_taxon_sets reg parent [] = (parent, reg)"
| "add_taxon_sets reg parent ((label, ls, d) # rest) =
     (case add_taxon_set reg parent label ls d of
        (parent1, reg1) \<Rightarrow> add_taxon_sets reg1 parent1 rest)"

text \<open>The two kinds of node that a request can produce.\<close>

definition taxon_set_reference :: "string \<Rightarrow> xml" where
  "taxon_set_reference idref =
     Element ''taxonset'' [(''idref'', idref), (''spec'', ''TaxonSet'')] [] []"

definition taxon_set_definition :: "string \<Rightarrow> string list \<Rightarrow> bool \<Rightarrow> xml" where
  "taxon_set_definition label ls define_taxa =
     Element ''taxonset'' [(''id'', label), (''spec'', ''TaxonSet'')] []
       [Element ''plate'' [(''var'', ''language''), (''range'', join '','' ls)] []
          [Element ''taxon''
             [(if define_taxa then ''id'' else ''idref'', ''$(language)'')] [] []]]"

text \<open>
  The deduplication as the specification words it: every request is answered from the
  list of all earlier requests, by a reference to the label of the first earlier request
  with the same set of languages when there is one, and by a full definition otherwise.
\<close>

fun spec_taxon_sets :: "taxon_sets \<Rightarrow> request list \<Rightarrow> xml list" where
  "spec_taxon_sets earlier [] = []"
| "spec_taxon_sets earlier ((label, ls, d) # rest) =
     (case find (\<lambda>(idref, taxa). taxa = set ls) earlier of
        Some (idref, taxa) \<Rightarrow> taxon_set_reference idref
      | None \<Rightarrow> taxon_set_definition label ls d) #
     spec_taxon_sets (earlier @ [(label, set ls)]) rest"

text \<open>No label stands for two different sets of languages.\<close>

definition consistent_labels :: "taxon_sets \<Rightarrow> bool" where
  "consistent_labels ts = (\<forall>p \<in> set ts. \<forall>q \<in> set ts. fst p = fst q \<longrightarrow> snd p = snd q)"

definition request_sets :: "request list \<Rightarrow> taxon_sets" where
  "request_sets reqs = map (\<lambda>(label, ls, d). (label, set ls)) reqs"

text \<open>
  The requests that the builder makes: the roster of the tree under the label
  \<^verbatim>\<open>taxa\<close>, then one per calibration in the order of the clade labels, under the
  clade label without its suffix \<^verbatim>\<open>_originate\<close>.
\<close>

definition taxon_set_name :: "string \<Rightarrow> string" where
  "taxon_set_name clade =
     (if endswith clade ''_originate''
      then take (length clade - length ''_originate'') clade else clade)"

definition builder_requests :: "'p configuration \<Rightarrow> request list" where
  "builder_requests c =
     (''taxa'', languages c, True) #
     map (\<lambda>(clade, cal). (taxon_set_name clade, langs cal, False))
       (sort_key fst (calibrations c))"

text \<open>
  The configuration of three languages with two calibrations on all of them, and with a
  calibration that is itself labelled \<^verbatim>\<open>taxa\<close>.
\<close>

definition roster_config :: "int configuration" where
  "roster_config =
     built_config
       \<lparr>calibrations :=
          [(''all'', \<lparr>langs = [''aaa'', ''bbb'', ''ccc''], dist = ''normal'', param1 = 1000,
                      param2 = 50, originate = False\<rparr>),
           (''whole'', \<lparr>langs = [''ccc'', ''bbb'', ''aaa''], dist = ''normal'', param1 = 900,
                        param2 = 50, originate = False\<rparr>)]\<rparr>"

definition relabelled_config :: "int configuration" where
  "relabelled_config =
     built_config
       \<lparr>calibrations :=
          [(''taxa'', \<lparr>langs = [''aaa'', ''bbb''], dist = ''normal'', param1 = 1000,
                       param2 = 50, originate = False\<rparr>),
           (''zzz'', \<lparr>langs = [''aaa'', ''bbb'', ''ccc''], dist = ''normal'', param1 = 900,
                      param2 = 50, originate = False\<rparr>)]\<rparr>"

section \<open>Properties of the resolution pass\<close>

lemma register_model_frame:
  "log_every (register_model kind mc m c) = log_every c"
  "families (register_model kind mc m c) = families c"
  "overlap (register_model kind mc m c) = overlap c"
  "lang_filter (register_model kind mc m c) = lang_filter c"
  by (simp_all add: register_model_def Let_def)

lemma add_flag_message_frame:
  "log_every (add_flag_message f n c) = log_every c"
  "families (add_flag_message f n c) = families c"
  "overlap (add_flag_message f n c) = overlap c"
  "lang_filter (add_flag_message f n c) = lang_filter c"
  by (simp_all add: add_flag_message_def)

lemma instantiate_model_frame:
  "instantiate_model env mc c = Inr c' \<Longrightarrow>
     log_every c' = log_every c \<and> families c' = families c \<and>
     overlap c' = overlap c \<and> lang_filter c' = lang_filter c"
  unfolding instantiate_model_def Let_def
  by (auto simp: register_model_frame add_flag_message_frame
      split: option.splits sum.splits if_splits)

lemma instantiate_models_frame:
  "instantiate_models env mcs c = Inr c' \<Longrightarrow>
     log_every c' = log_every c \<and> families c' = families c \<and>
     overlap c' = overlap c \<and> lang_filter c' = lang_filter c"
proof (induction mcs arbitrary: c)
  case Nil
  then show ?case by simp
next
  case (Cons mc rest)
  from Cons.prems obtain c1 where a: "instantiate_model env mc c = Inr c1"
    and b: "instantiate_models env rest c1 = Inr c'"
    by (auto split: sum.splits)
  from instantiate_model_frame [OF a] Cons.IH [OF b] show ?case by simp
qed

lemma note_dependency_frame:
  "log_every (note_dependency c) = log_every c"
  "chainlength (note_dependency c) = chainlength c"
  "families (note_dependency c) = families c"
  by (simp_all add: note_dependency_def)

lemma derive_log_every_families:
  "families (derive_log_every c) = families c"
  by (simp add: derive_log_every_def Let_def)

lemma derive_log_every_value:
  "log_every (derive_log_every c) =
     (if log_every c \<noteq> 0 then log_every c
      else if chainlength c div 10000 = 0 then 1 else chainlength c div 10000)"
  by (simp add: derive_log_every_def Let_def)

lemma read_families_result:
  "read_families env c = Inr c' \<Longrightarrow> log_every c' = log_every c \<and> (\<exists>fs. families c' = FamList fs)"
  by (auto simp: read_families_def split: families_value.splits)

lemma read_starting_tree_frame:
  "log_every (read_starting_tree env c) = log_every c"
  "families (read_starting_tree env c) = families c"
  by (simp_all add: read_starting_tree_def)

lemma load_models_frame:
  "load_models env c = Inr c' \<Longrightarrow> log_every c' = log_every c \<and> families c' = families c"
  by (auto simp: load_models_def Let_def set_stdin_data_def determine_lang_filter_def
      split: sum.splits if_splits dest!: instantiate_models_frame)

lemma prepare_log_every:
  assumes "prepare env c0 = Inr c"
  shows "log_every c = log_every (derive_log_every (note_dependency c0))"
    and "\<exists>fs. families c = FamList fs"
  using assms
  by (auto simp: prepare_def read_starting_tree_frame
      split: sum.splits dest!: load_models_frame read_families_result)

lemma process_prepare:
  assumes "process env c0 = Inr c'"
  obtains c ls where "prepare env c0 = Inr c"
    and "finalise_languages (overlap c) (lang_filter c) (map (model_languages c) (models c)) = Inr ls"
    and "c' = c\<lparr>languages := ls,
                 messages := messages c @
                   [''[INFO] '' @ str_nat (length ls) @ '' languages included in analysis.''],
                 processed := True\<rparr>"
  using assms by (auto simp: process_def split: sum.splits)

text \<open>
  C10 as stated fails: a configured interval of -5 is kept by a successful pass, and a
  chain length of -1 gives the interval -1.
\<close>

theorem log_every_below_one:
  "\<not> isl (process example_env negative_log_every_config) \<and>
   log_every (projr (process example_env negative_log_every_config)) = - 5 \<and>
   \<not> isl (process example_env negative_chainlength_config) \<and>
   log_every (projr (process example_env negative_chainlength_config)) = - 1"
  by code_simp

lemma prepare_families_list:
  "families c = FamList fs \<Longrightarrow>
     prepare env c = Inl (TypeError ''coercing to Unicode: need string or buffer, list found'')"
  by (simp add: prepare_def read_families_def derive_log_every_families note_dependency_frame)

text \<open>
  C6. A second call of \<^verbatim>\<open>process\<close> on a configuration that the first call has
  processed does not return the language list again: the first call leaves a list in
  \<^verbatim>\<open>families\<close>, and the second call fails on it with a \<^verbatim>\<open>TypeError\<close>.
\<close>

theorem process_twice_fails:
  "process env c = Inr c' \<Longrightarrow>
     process env c' = Inl (TypeError ''coercing to Unicode: need string or buffer, list found'')"
proof -
  assume p: "process env c = Inr c'"
  then obtain c1 ls where c1: "prepare env c = Inr c1"
    and c': "c' = c1\<lparr>languages := ls,
                 messages := messages c1 @
                   [''[INFO] '' @ str_nat (length ls) @ '' languages included in analysis.''],
                 processed := True\<rparr>"
    by (rule process_prepare)
  from prepare_log_every(2) [OF c1] obtain fs where "families c' = FamList fs"
    using c' by auto
  then show ?thesis
    by (simp add: process_def prepare_families_list)
qed


theorem process_twice_fails_witness:
  "process example_env example_config = Inr (projr (process example_env example_config)) \<and>
   process example_env (projr (process example_env example_config)) =
     Inl (TypeError ''coercing to Unicode: need string or buffer, list found'')"
proof -
  have a: "\<not> isl (process example_env example_config)"
    by code_simp
  then have b: "process example_env example_config =
      Inr (projr (process example_env example_config))"
    by simp
  from process_twice_fails [OF b] b show ?thesis
    by simp
qed

section \<open>Properties of the overlap policies\<close>

lemma combine_union:
  "combine_languages (\<lambda>a b. Inr (a \<union> b)) {} ls ds = Inr (ls \<union> \<Union>(set ds))"
  by (induction ds arbitrary: ls) (auto simp: Let_def)

lemma combine_intersection:
  "combine_languages (\<lambda>a b. Inr (a \<inter> b)) {} ls ds = Inr (ls \<inter> \<Inter>(set ds))"
  by (induction ds arbitrary: ls) (auto simp: Let_def)

lemma combine_error:
  "combine_languages assert_compare_equal {} ls ds =
     (if \<forall>T \<in> set ds. T = ls then Inr ls
      else Inl (ValueError ''Values were expected to match.''))"
  by (induction ds arbitrary: ls) (auto simp: Let_def assert_compare_equal_def)

text \<open>
  C4. With no family filter (\<^verbatim>\<open>families\<close> left at \<^verbatim>\<open>"*"\<close>, which gives an empty
  \<open>lang_filter\<close>), the language sets \<open>S\<close>, \<open>rest\<close> of the models are combined from left
  to right: \<^verbatim>\<open>union\<close> returns their union, \<^verbatim>\<open>intersection\<close> their intersection, and
  the third policy (key \<^verbatim>\<open>"error"\<close>) returns \<open>S\<close> when every set equals \<open>S\<close> and
  fails with the \<^verbatim>\<open>ValueError\<close> of \<^verbatim>\<open>assert_compare_equal\<close> otherwise. The result
  is the sorted list of the set; an empty set is rejected.
\<close>

theorem overlap_policies:
  "finalise_languages ''union'' {} (S # rest) =
     (if S \<union> \<Union>(set rest) = {} then Inl (ValueError ''No languages specified!'')
      else Inr (sorted_list_of_set (S \<union> \<Union>(set rest)))) \<and>
   finalise_languages ''intersection'' {} (S # rest) =
     (if S \<inter> \<Inter>(set rest) = {} then Inl (ValueError ''No languages specified!'')
      else Inr (sorted_list_of_set (S \<inter> \<Inter>(set rest)))) \<and>
   finalise_languages ''error'' {} (S # rest) =
     (if \<exists>T \<in> set rest. T \<noteq> S then Inl (ValueError ''Values were expected to match.'')
      else if S = {} then Inl (ValueError ''No languages specified!'')
      else Inr (sorted_list_of_set S))"
proof -
  have u: "S \<union> (S \<union> \<Union>(set rest)) = S \<union> \<Union>(set rest)" by auto
  have i: "S \<inter> (S \<inter> \<Inter>(set rest)) = S \<inter> \<Inter>(set rest)" by auto
  show ?thesis
    by (simp add: finalise_languages_def valid_overlaps_def combine_union combine_intersection
        combine_error assert_compare_equal_def u i)
qed

theorem overlap_policies_witness:
  "finalise_languages ''union'' {} [{''a'', ''b''}, {''b'', ''c''}, {''a'', ''c''}] =
     Inr [''a'', ''b'', ''c''] \<and>
   finalise_languages ''intersection'' {} [{''a'', ''b''}, {''b'', ''c''}] = Inr [''b''] \<and>
   finalise_languages ''error'' {} [{''a'', ''b''}, {''a'', ''b''}] = Inr [''a'', ''b''] \<and>
   finalise_languages ''error'' {} [{''a'', ''b''}, {''b'', ''c''}] =
     Inl (ValueError ''Values were expected to match.'')"
proof -
  have a: "sorted_list_of_set ({''a'', ''b''} \<union> \<Union>(set [{''b'', ''c''}, {''a'', ''c''}])) =
      [''a'', ''b'', ''c'']"
    "sorted_list_of_set ({''a'', ''b''} \<inter> \<Inter>(set [{''b'', ''c''}])) = [''b'']"
    "sorted_list_of_set {''a'', ''b''} = [''a'', ''b'']"
    by code_simp+
  have b: "{''a'', ''b''} \<union> \<Union>(set [{''b'', ''c''}, {''a'', ''c''}]) \<noteq> {}"
    "{''a'', ''b''} \<inter> \<Inter>(set [{''b'', ''c''}]) \<noteq> {}"
    "{''b'', ''c''} \<noteq> {''a'', ''b''}"
    by code_simp+
  have u: "finalise_languages ''union'' {} [{''a'', ''b''}, {''b'', ''c''}, {''a'', ''c''}] =
      Inr [''a'', ''b'', ''c'']"
    using overlap_policies [of "{''a'', ''b''}" "[{''b'', ''c''}, {''a'', ''c''}]"] a(1) b(1)
    by presburger
  have i: "finalise_languages ''intersection'' {} [{''a'', ''b''}, {''b'', ''c''}] = Inr [''b'']"
    using overlap_policies [of "{''a'', ''b''}" "[{''b'', ''c''}]"] a(2) b(2)
    by presburger
  have e1: "finalise_languages ''error'' {} [{''a'', ''b''}, {''a'', ''b''}] = Inr [''a'', ''b'']"
    using overlap_policies [of "{''a'', ''b''}" "[{''a'', ''b''}]"] a(3)
    by simp
  have e2: "finalise_languages ''error'' {} [{''a'', ''b''}, {''b'', ''c''}] =
      Inl (ValueError ''Values were expected to match.'')"
    using overlap_policies [of "{''a'', ''b''}" "[{''b'', ''c''}]"] b(3)
    by simp
  from u i e1 e2 show ?thesis
    by blast
qed

text \<open>
  C9. The family filter does not decide whether the language set is empty. Restricted
  to the family Other, whose only language ccc is in no data source, the filtered
  languages of the data are the empty set; \<^verbatim>\<open>process\<close> still succeeds and returns aaa
  and bbb, because under \<^verbatim>\<open>union\<close> the language set starts from the unfiltered first
  data source. Restricted to a family that no language belongs to, the filter is the
  empty set, which the loop takes for no filter, and \<^verbatim>\<open>process\<close> succeeds as well.
\<close>

theorem empty_filtered_set_accepted:
  "lang_filter (projr (prepare example_env other_family_config)) = {''ccc''} \<and>
   map (model_languages (projr (prepare example_env other_family_config)))
     (models (projr (prepare example_env other_family_config))) = [{''aaa'', ''bbb''}] \<and>
   {''aaa'', ''bbb''} \<inter> {''ccc''} = ({} :: string set) \<and>
   map_sum id languages (process example_env other_family_config) = Inr [''aaa'', ''bbb''] \<and>
   families (projr (prepare example_env unknown_family_config)) = FamList [''Nowhere''] \<and>
   lang_filter (projr (prepare example_env unknown_family_config)) = {} \<and>
   map_sum id languages (process example_env unknown_family_config) = Inr [''aaa'', ''bbb'']"
  by code_simp

section \<open>Properties of the command line\<close>

text \<open>
  C8, as the code has it. The generate command ends with status 1 when a configuration
  file is missing, 2 when constructing or processing the configuration raises, 4 when the
  output file exists and overwriting was not asked for, 3 when the builder raises, and 0
  when everything succeeds. The extract command has its own numbering: 1 when it is not
  given exactly one file, 2 when that file is missing, 3 when the extraction raises, 0 on
  success, and never 4.
\<close>

theorem exit_codes:
  "(\<not> a_extract a \<longrightarrow>
      ((\<exists>conf \<in> set (a_config a). \<not> file_exists w conf) \<longrightarrow> main w a = Exit 1) \<and>
      ((\<forall>conf \<in> set (a_config a). file_exists w conf) \<longrightarrow>
         (\<forall>m. new_Configuration w a = Inl (Exception m) \<longrightarrow> main w a = Exit 2) \<and>
         (\<forall>c. new_Configuration w a = Inr c \<longrightarrow>
            (file_exists w (output_filename w a c) \<and> \<not> a_overwrite a \<longrightarrow> main w a = Exit 4) \<and>
            (\<not> (file_exists w (output_filename w a c) \<and> \<not> a_overwrite a) \<longrightarrow>
               (\<forall>m. config_process w c = Inl (Exception m) \<longrightarrow> main w a = Exit 2) \<and>
               (\<forall>c1. config_process w c = Inr c1 \<longrightarrow>
                  (\<forall>m. new_BeastXml w c1 = Inl (Exception m) \<longrightarrow> main w a = Exit 3) \<and>
                  (\<forall>x. new_BeastXml w c1 = Inr x \<and>
                        after_build w a c1 x (output_filename w a c) = None \<longrightarrow>
                        main w a = Exit 0)))))) \<and>
   (a_extract a \<longrightarrow>
      (length (a_config a) \<noteq> 1 \<longrightarrow> main w a = Exit 1) \<and>
      (\<forall>f. a_config a = [f] \<longrightarrow>
         (\<not> file_exists w f \<longrightarrow> main w a = Exit 2) \<and>
         (file_exists w f \<longrightarrow>
            (\<forall>m. run_extract w f (a_overwrite a) = Inl (Exception m) \<longrightarrow> main w a = Exit 3) \<and>
            (\<forall>msgs. run_extract w f (a_overwrite a) = Inr msgs \<longrightarrow> main w a = Exit 0))) \<and>
      main w a \<noteq> Exit 4)"
proof -
  have g: "\<not> a_extract a \<Longrightarrow> main w a = (case do_generate w a of Some out \<Rightarrow> out | None \<Rightarrow> Exit 0)"
    by (simp add: main_def)
  have e: "a_extract a \<Longrightarrow> main w a = (case do_extract w a of Some out \<Rightarrow> out | None \<Rightarrow> Exit 0)"
    by (simp add: main_def)
  have gen: "\<not> a_extract a \<longrightarrow>
      ((\<exists>conf \<in> set (a_config a). \<not> file_exists w conf) \<longrightarrow> main w a = Exit 1) \<and>
      ((\<forall>conf \<in> set (a_config a). file_exists w conf) \<longrightarrow>
         (\<forall>m. new_Configuration w a = Inl (Exception m) \<longrightarrow> main w a = Exit 2) \<and>
         (\<forall>c. new_Configuration w a = Inr c \<longrightarrow>
            (file_exists w (output_filename w a c) \<and> \<not> a_overwrite a \<longrightarrow> main w a = Exit 4) \<and>
            (\<not> (file_exists w (output_filename w a c) \<and> \<not> a_overwrite a) \<longrightarrow>
               (\<forall>m. config_process w c = Inl (Exception m) \<longrightarrow> main w a = Exit 2) \<and>
               (\<forall>c1. config_process w c = Inr c1 \<longrightarrow>
                  (\<forall>m. new_BeastXml w c1 = Inl (Exception m) \<longrightarrow> main w a = Exit 3) \<and>
                  (\<forall>x. new_BeastXml w c1 = Inr x \<and>
                        after_build w a c1 x (output_filename w a c) = None \<longrightarrow>
                        main w a = Exit 0)))))"
    by (auto simp: g do_generate_def list_ex_iff)
  have ext: "a_extract a \<longrightarrow>
      (length (a_config a) \<noteq> 1 \<longrightarrow> main w a = Exit 1) \<and>
      (\<forall>f. a_config a = [f] \<longrightarrow>
         (\<not> file_exists w f \<longrightarrow> main w a = Exit 2) \<and>
         (file_exists w f \<longrightarrow>
            (\<forall>m. run_extract w f (a_overwrite a) = Inl (Exception m) \<longrightarrow> main w a = Exit 3) \<and>
            (\<forall>msgs. run_extract w f (a_overwrite a) = Inr msgs \<longrightarrow> main w a = Exit 0))) \<and>
      main w a \<noteq> Exit 4"
    by (auto simp: e do_extract_def split: sum.splits raised.splits)
  from gen ext show ?thesis
    by blast
qed

theorem exit_codes_witness:
  "main empty_world (extract_args\<lparr>a_extract := False\<rparr>) = Exit 1 \<and>
   main empty_world (extract_args\<lparr>a_extract := False, a_config := []\<rparr>) = Exit 0 \<and>
   main empty_world extract_args = Exit 2"
proof -
  have a: "\<not> a_extract (extract_args\<lparr>a_extract := False\<rparr>)"
    "\<exists>conf \<in> set (a_config (extract_args\<lparr>a_extract := False\<rparr>)).
       \<not> file_exists empty_world conf"
    by (simp_all add: extract_args_def empty_world_def)
  have b: "\<not> a_extract (extract_args\<lparr>a_extract := False, a_config := []\<rparr>)"
    "\<forall>conf \<in> set (a_config (extract_args\<lparr>a_extract := False, a_config := []\<rparr>)).
       file_exists empty_world conf"
    "new_Configuration empty_world (extract_args\<lparr>a_extract := False, a_config := []\<rparr>) = Inr ()"
    "\<not> (file_exists empty_world
          (output_filename empty_world (extract_args\<lparr>a_extract := False, a_config := []\<rparr>) ()) \<and>
        \<not> a_overwrite (extract_args\<lparr>a_extract := False, a_config := []\<rparr>))"
    "config_process empty_world () = Inr ()"
    "new_BeastXml empty_world () = Inr () \<and>
     after_build empty_world (extract_args\<lparr>a_extract := False, a_config := []\<rparr>) () ()
       (output_filename empty_world (extract_args\<lparr>a_extract := False, a_config := []\<rparr>) ()) = None"
    by (simp_all add: extract_args_def empty_world_def after_build_def)
  have c: "a_extract extract_args" "a_config extract_args = [''analysis.xml'']"
    "\<not> file_exists empty_world ''analysis.xml''"
    by (simp_all add: extract_args_def empty_world_def)
  from exit_codes [of "extract_args\<lparr>a_extract := False\<rparr>" empty_world] a
  have 1: "main empty_world (extract_args\<lparr>a_extract := False\<rparr>) = Exit 1"
    by blast
  from exit_codes [of "extract_args\<lparr>a_extract := False, a_config := []\<rparr>" empty_world] b
  have 2: "main empty_world (extract_args\<lparr>a_extract := False, a_config := []\<rparr>) = Exit 0"
    by blast
  from exit_codes [of extract_args empty_world] c
  have 3: "main empty_world extract_args = Exit 2"
    by blast
  from 1 2 3 show ?thesis
    by blast
qed

text \<open>
  C8 as stated fails for the extract command: a missing input file ends the run with
  status 2, not 1.
\<close>

theorem extract_missing_file_status:
  "a_extract extract_args \<and> a_config extract_args = [''analysis.xml''] \<and>
   \<not> file_exists empty_world ''analysis.xml'' \<and>
   main empty_world extract_args = Exit 2 \<and> main empty_world extract_args \<noteq> Exit 1"
  by (simp add: main_def do_extract_def extract_args_def empty_world_def)

section \<open>Properties of the document builder\<close>

text \<open>
  C3. The initialiser that \<^verbatim>\<open>add_init\<close> appends to the run element is chosen by the
  first condition that holds: a starting tree gives the tree parser (with the tree as
  its \<^verbatim>\<open>newick\<close> attribute); otherwise monophyly constraints and at least three
  languages give the constrained random tree; otherwise a calibration with a uniform
  distribution gives the simple random tree; otherwise the random tree.
\<close>

theorem tree_initialiser_choice:
  "\<exists>i. add_init c (Element t a x cs) = Element t a x (cs @ [i]) \<and> tag i = ''init'' \<and>
     map_of (attrib i) ''spec'' =
       Some (if starting_tree c \<noteq> [] then ''beast.util.TreeParser''
             else if monophyly c \<and> 3 \<le> length (languages c)
               then ''beast.evolution.tree.ConstrainedRandomTree''
             else if \<exists>cal \<in> snd ` set (calibrations c). dist cal = ''uniform''
               then ''beast.evolution.tree.SimpleRandomTree''
             else ''beast.evolution.tree.RandomTree'') \<and>
     (starting_tree c \<noteq> [] \<longrightarrow> map_of (attrib i) ''newick'' = Some (starting_tree c))"
proof -
  have u: "list_ex (\<lambda>cal. dist cal = ''uniform'') (map snd (calibrations c)) =
      (\<exists>cal \<in> snd ` set (calibrations c). dist cal = ''uniform'')"
    by (simp add: list_ex_iff)
  have l: "(2 < length (languages c)) = (3 \<le> length (languages c))"
    by auto
  show ?thesis
    unfolding add_init_def u l
    by (simp add: SubElement_def add_constrainedrandomtree_init_def
        add_simplerandomtree_init_def add_randomtree_init_def)
qed

theorem tree_initialiser_choice_witness:
  "\<exists>i. add_init built_config (Element ''run'' [] [] []) = Element ''run'' [] [] [i] \<and>
     map_of (attrib i) ''spec'' = Some ''beast.evolution.tree.SimpleRandomTree''"
proof -
  have a: "starting_tree built_config = []" "\<not> monophyly built_config"
    "\<exists>cal \<in> snd ` set (calibrations built_config). dist cal = ''uniform''"
    by (simp_all add: built_config_def Configuration_init_def)
  from tree_initialiser_choice [of built_config "''run''" "[]" "[]" "[]"] a
  show ?thesis
    by auto
qed

lemma add_taxon_set_child:
  "\<exists>ts. tag ts = ''taxonset'' \<and>
     fst (add_taxon_set reg (Element t a x cs) label ls d) = Element t a x (cs @ [ts])"
  by (auto simp: add_taxon_set_def SubElement_def Let_def split: option.splits)

lemma add_calibration_node:
  assumes "add_calibration str reg (Element t a x cs) clade cal = Inr (prior', reg')"
  shows "\<exists>attrs ts d. prior' = Element t a x (cs @ [Element ''distribution'' attrs [] [ts, d]]) \<and>
           tag ts = ''taxonset'' \<and> calibration_distribution str clade cal = Inr d"
proof -
  let ?attrs = "[(''id'', clade @ ''MRCA''), (''monophyletic'', ''true''),
                 (''spec'', ''beast.math.distributions.MRCAPrior''),
                 (''tree'', ''@Tree.t:beastlingTree'')] @
                (if originate cal then [(''useOriginate'', ''true'')] else [])"
  let ?name = "if endswith clade ''_originate''
               then take (length clade - length ''_originate'') clade else clade"
  obtain ts where ts: "tag ts = ''taxonset''"
    "fst (add_taxon_set reg (Element ''distribution'' ?attrs [] []) ?name (langs cal) False) =
       Element ''distribution'' ?attrs [] ([] @ [ts])"
    using add_taxon_set_child by blast
  from assms obtain d where d: "calibration_distribution str clade cal = Inr d"
    by (auto simp: add_calibration_def Let_def split: prod.splits sum.splits)
  have "prior' = Element t a x (cs @ [Element ''distribution'' ?attrs [] [ts, d]])"
    using assms d ts(2)
    by (auto simp: add_calibration_def Let_def split: prod.splits)
  with ts(1) d show ?thesis
    by blast
qed

lemma add_calibrations_loop_nodes:
  assumes "add_calibrations_loop str reg (Element t a x cs) cals = Inr (prior', reg')"
  shows "\<exists>nodes. prior' = Element t a x (cs @ nodes) \<and>
           list_all2 (\<lambda>(clade, cal) node.
               \<exists>attrs ts d. node = Element ''distribution'' attrs [] [ts, d] \<and>
                 tag ts = ''taxonset'' \<and> calibration_distribution str clade cal = Inr d)
             cals nodes"
  using assms
proof (induction cals arbitrary: reg cs)
  case Nil
  then show ?case by simp
next
  case (Cons p cals)
  obtain clade cal where p: "p = (clade, cal)"
    by (cases p)
  from Cons.prems p obtain prior1 reg1 where
      s: "add_calibration str reg (Element t a x cs) clade cal = Inr (prior1, reg1)"
    and r: "add_calibrations_loop str reg1 prior1 cals = Inr (prior', reg')"
    by (auto split: sum.splits)
  from add_calibration_node [OF s] obtain attrs ts d where
      n: "prior1 = Element t a x (cs @ [Element ''distribution'' attrs [] [ts, d]])"
      "tag ts = ''taxonset''" "calibration_distribution str clade cal = Inr d"
    by blast
  from Cons.IH [OF r [unfolded n(1)]] obtain nodes where
      ns: "prior' = Element t a x ((cs @ [Element ''distribution'' attrs [] [ts, d]]) @ nodes)"
      "list_all2 (\<lambda>(clade, cal) node.
               \<exists>attrs ts d. node = Element ''distribution'' attrs [] [ts, d] \<and>
                 tag ts = ''taxonset'' \<and> calibration_distribution str clade cal = Inr d)
             cals nodes"
    by blast
  show ?case
    using ns n(2,3) p
    by (intro exI [of _ "Element ''distribution'' attrs [] [ts, d] # nodes"]) auto
qed

text \<open>
  C2. The distribution node of a calibration: for \<^verbatim>\<open>uniform\<close> it carries the two
  bounds as the attributes \<^verbatim>\<open>lower\<close> and \<^verbatim>\<open>upper\<close> and has no children; for
  \<^verbatim>\<open>normal\<close> it has exactly two \<^verbatim>\<open>parameter\<close> children named \<^verbatim>\<open>mean\<close> and
  \<^verbatim>\<open>sigma\<close>, for \<^verbatim>\<open>lognormal\<close> exactly two named \<^verbatim>\<open>M\<close> and \<^verbatim>\<open>S\<close>, and no bound
  attributes. \<^verbatim>\<open>add_calibrations\<close> appends to the prior, for each calibration in the
  order of the clade labels, one node whose children are a taxon set and that
  distribution node.
\<close>

theorem calibration_parameters:
  "(dist cal = ''uniform'' \<longrightarrow>
      (\<exists>d. calibration_distribution str clade cal = Inr d \<and> tag d = ''Uniform'' \<and>
         map_of (attrib d) ''lower'' = Some (str (param1 cal)) \<and>
         map_of (attrib d) ''upper'' = Some (str (param2 cal)) \<and> children d = [])) \<and>
   (dist cal = ''normal'' \<longrightarrow>
      (\<exists>d p1 p2. calibration_distribution str clade cal = Inr d \<and> tag d = ''Normal'' \<and>
         map_of (attrib d) ''lower'' = None \<and> map_of (attrib d) ''upper'' = None \<and>
         children d = [p1, p2] \<and> tag p1 = ''parameter'' \<and> tag p2 = ''parameter'' \<and>
         map_of (attrib p1) ''name'' = Some ''mean'' \<and> etext p1 = str (param1 cal) \<and>
         map_of (attrib p2) ''name'' = Some ''sigma'' \<and> etext p2 = str (param2 cal))) \<and>
   (dist cal = ''lognormal'' \<longrightarrow>
      (\<exists>d p1 p2. calibration_distribution str clade cal = Inr d \<and> tag d = ''LogNormal'' \<and>
         map_of (attrib d) ''lower'' = None \<and> map_of (attrib d) ''upper'' = None \<and>
         children d = [p1, p2] \<and> tag p1 = ''parameter'' \<and> tag p2 = ''parameter'' \<and>
         map_of (attrib p1) ''name'' = Some ''M'' \<and> etext p1 = str (param1 cal) \<and>
         map_of (attrib p2) ''name'' = Some ''S'' \<and> etext p2 = str (param2 cal))) \<and>
   (\<forall>prior' reg'.
      add_calibrations str c reg (Element t a x cs) = Inr (prior', reg') \<longrightarrow>
      (\<exists>nodes. prior' = Element t a x (cs @ nodes) \<and>
         list_all2 (\<lambda>(clade, cal) node.
             \<exists>attrs ts d. node = Element ''distribution'' attrs [] [ts, d] \<and>
               tag ts = ''taxonset'' \<and> calibration_distribution str clade cal = Inr d)
           (sort_key fst (calibrations c)) nodes))"
proof (intro conjI impI allI)
  assume "dist cal = ''uniform''"
  then show "\<exists>d. calibration_distribution str clade cal = Inr d \<and> tag d = ''Uniform'' \<and>
         map_of (attrib d) ''lower'' = Some (str (param1 cal)) \<and>
         map_of (attrib d) ''upper'' = Some (str (param2 cal)) \<and> children d = []"
    by (simp add: calibration_distribution_def lookup_def dist_types_def)
next
  assume "dist cal = ''normal''"
  then show "\<exists>d p1 p2. calibration_distribution str clade cal = Inr d \<and> tag d = ''Normal'' \<and>
         map_of (attrib d) ''lower'' = None \<and> map_of (attrib d) ''upper'' = None \<and>
         children d = [p1, p2] \<and> tag p1 = ''parameter'' \<and> tag p2 = ''parameter'' \<and>
         map_of (attrib p1) ''name'' = Some ''mean'' \<and> etext p1 = str (param1 cal) \<and>
         map_of (attrib p2) ''name'' = Some ''sigma'' \<and> etext p2 = str (param2 cal)"
    by (simp add: calibration_distribution_def lookup_def dist_types_def p1_names_def
        p2_names_def)
next
  assume "dist cal = ''lognormal''"
  then show "\<exists>d p1 p2. calibration_distribution str clade cal = Inr d \<and> tag d = ''LogNormal'' \<and>
         map_of (attrib d) ''lower'' = None \<and> map_of (attrib d) ''upper'' = None \<and>
         children d = [p1, p2] \<and> tag p1 = ''parameter'' \<and> tag p2 = ''parameter'' \<and>
         map_of (attrib p1) ''name'' = Some ''M'' \<and> etext p1 = str (param1 cal) \<and>
         map_of (attrib p2) ''name'' = Some ''S'' \<and> etext p2 = str (param2 cal)"
    by (simp add: calibration_distribution_def lookup_def dist_types_def p1_names_def
        p2_names_def)
next
  fix prior' reg'
  assume "add_calibrations str c reg (Element t a x cs) = Inr (prior', reg')"
  then show "\<exists>nodes. prior' = Element t a x (cs @ nodes) \<and>
         list_all2 (\<lambda>(clade, cal) node.
             \<exists>attrs ts d. node = Element ''distribution'' attrs [] [ts, d] \<and>
               tag ts = ''taxonset'' \<and> calibration_distribution str clade cal = Inr d)
           (sort_key fst (calibrations c)) nodes"
    unfolding add_calibrations_def by (rule add_calibrations_loop_nodes)
qed

theorem calibration_parameters_witness:
  "(\<exists>d. calibration_distribution str_int ''east''
          \<lparr>langs = [''bbb'', ''aaa''], dist = ''uniform'', param1 = 500, param2 = 900,
           originate = False\<rparr> = Inr d \<and>
        map_of (attrib d) ''lower'' = Some ''500'' \<and>
        map_of (attrib d) ''upper'' = Some ''900'' \<and> children d = []) \<and>
   (\<exists>prior' reg' nodes.
      add_calibrations str_int built_config [] (Element ''distribution'' [] [] []) =
        Inr (prior', reg') \<and>
      prior' = Element ''distribution'' [] [] nodes \<and> length nodes = 3)"
proof -
  let ?cal = "\<lparr>langs = [''bbb'', ''aaa''], dist = ''uniform'', param1 = 500::int, param2 = 900,
           originate = False\<rparr>"
  have s: "str_int 500 = ''500''" "str_int 900 = ''900''"
    by code_simp+
  have u: "dist ?cal = ''uniform''"
    by simp
  have a: "\<not> isl (add_calibrations str_int built_config [] (Element ''distribution'' [] [] []))"
    by code_simp
  then obtain prior' reg' where
      r: "add_calibrations str_int built_config [] (Element ''distribution'' [] [] []) =
            Inr (prior', reg')"
    by (cases "add_calibrations str_int built_config [] (Element ''distribution'' [] [] [])")
       auto
  have n: "length (sort_key fst (calibrations built_config)) = 3"
    by (simp add: built_config_def)
  note inst = calibration_parameters [of ?cal str_int "''east''" built_config "[]"
      "''distribution''" "[]" "[]" "[]"]
  from inst u s have 1: "\<exists>d. calibration_distribution str_int ''east'' ?cal = Inr d \<and>
        map_of (attrib d) ''lower'' = Some ''500'' \<and>
        map_of (attrib d) ''upper'' = Some ''900'' \<and> children d = []"
    by auto
  from inst r obtain nodes where
      ns: "prior' = Element ''distribution'' [] [] ([] @ nodes)"
      "list_all2 (\<lambda>(clade, cal) node.
             \<exists>attrs ts d. node = Element ''distribution'' attrs [] [ts, d] \<and>
               tag ts = ''taxonset'' \<and> calibration_distribution str_int clade cal = Inr d)
           (sort_key fst (calibrations built_config)) nodes"
    by blast
  from ns(2) n have "length nodes = 3"
    by (simp add: list_all2_lengthD [symmetric])
  with r ns(1) 1 show ?thesis
    by auto
qed

section \<open>Properties of the loggers\<close>

lemma str_nat_not_empty: "str_nat n \<noteq> []"
  by (subst str_nat.simps) simp

lemma zero_digit: "char_of (48::nat) = CHR ''0''"
  by code_simp

lemma digit_zero: "(n::nat) < 10 \<Longrightarrow> char_of (48 + n) = CHR ''0'' \<Longrightarrow> n = 0"
proof -
  assume n: "n < 10" and c: "char_of (48 + n) = CHR ''0''"
  have "of_char (char_of (48 + n)) = (of_char CHR ''0'' :: nat)"
    using c by simp
  then have "(48 + n) mod 256 = 48"
    by (simp add: of_char_of)
  with n show "n = 0"
    by simp
qed

lemma str_nat_zero: "(str_nat n = ''0'') = (n = 0)"
proof
  assume z: "str_nat n = ''0''"
  show "n = 0"
  proof (cases "n < 10")
    case True
    then have "str_nat n = [char_of (48 + n)]"
      by (subst str_nat.simps) simp
    with z True show ?thesis
      by (simp add: digit_zero)
  next
    case False
    then have "str_nat n = str_nat (n div 10) @ [char_of (48 + n mod 10)]"
      by (subst str_nat.simps) simp
    with z have "str_nat (n div 10) = []"
      by simp
    with str_nat_not_empty show ?thesis
      by blast
  qed
next
  assume "n = 0"
  then show "str_nat n = ''0''"
    by (subst str_nat.simps) (simp add: zero_digit)
qed

lemma str_int_zero: "(str_int i = ''0'') = (i = 0)"
  by (auto simp: str_int_def str_nat_zero)

lemma adds_children_SubElement: "adds_children (\<lambda>p. SubElement p t a)"
  by (auto simp: adds_children_def SubElement_def)

lemma adds_children_fold:
  "(\<And>y. y \<in> set ys \<Longrightarrow> adds_children (f y)) \<Longrightarrow> adds_children (fold f ys)"
proof (induction ys)
  case Nil
  then show ?case by (simp add: adds_children_def)
next
  case (Cons y ys)
  have a: "adds_children (f y)" and b: "adds_children (fold f ys)"
    using Cons by auto
  show ?case
    unfolding adds_children_def
  proof (intro allI)
    fix t a x cs
    from a obtain n1 where 1: "f y (Element t a x cs) = Element t a x (cs @ n1)"
      unfolding adds_children_def by blast
    from b obtain n2 where 2: "fold f ys (Element t a x (cs @ n1)) = Element t a x ((cs @ n1) @ n2)"
      unfolding adds_children_def by blast
    from 1 2 show "\<exists>new. fold f (y # ys) (Element t a x cs) = Element t a x (cs @ new)"
      by auto
  qed
qed

lemma adds_children_if:
  "adds_children f \<Longrightarrow> adds_children g \<Longrightarrow> adds_children (\<lambda>p. if b then f p else g p)"
  by (simp add: adds_children_def)

lemma adds_children_apply:
  "adds_children h \<Longrightarrow> \<exists>new. h (Element t a x cs) = Element t a x (cs @ new)"
  by (simp add: adds_children_def)

text \<open>The logger nodes appended to a run element all carry the interval of \<open>c\<close>.\<close>

lemma add_screen_logger_interval:
  "\<exists>es. add_screen_logger c (Element t a x cs) = Element t a x (cs @ es) \<and>
     (\<forall>e \<in> set es. tag e = ''logger'' \<and>
        map_of (attrib e) ''logEvery'' = Some (str_int (log_every c)))"
proof (cases "screenlog c")
  case True
  then show ?thesis
    by (simp add: add_screen_logger_def)
next
  case False
  then have "add_screen_logger c (Element t a x cs) = Element t a x (cs @ [])"
    by (simp add: add_screen_logger_def)
  then show ?thesis
    by (intro exI [of _ "[]"]) simp
qed

lemma add_tree_logger_interval:
  "\<exists>e. add_tree_logger c suffix b l (Element t a x cs) = Element t a x (cs @ [e]) \<and>
     tag e = ''logger'' \<and> map_of (attrib e) ''logEvery'' = Some (str_int (log_every c))"
  by (simp add: add_tree_logger_def)

lemma add_tracer_logger_interval:
  assumes "\<And>m. adds_children (model_add_param_logs co m)"
    and "\<And>k. adds_children (clock_add_param_logs co k)"
  shows "\<exists>es. add_tracer_logger co c (Element t a x cs) = Element t a x (cs @ es) \<and>
     (\<forall>e \<in> set es. tag e = ''logger'' \<and>
        map_of (attrib e) ''logEvery'' = Some (str_int (log_every c)))"
proof (cases "log_probabilities c \<or> log_params c \<or> log_all c")
  case False
  then have "add_tracer_logger co c (Element t a x cs) = Element t a x (cs @ [])"
    by (simp add: add_tracer_logger_def)
  then show ?thesis
    by (intro exI [of _ "[]"]) simp
next
  case True
  let ?attrs = "[(''id'', ''tracelog''), (''fileName'', basename c @ ''.log''),
                (''logEvery'', str_int (log_every c)), (''sort'', ''smart'')]"
  define h1 where "h1 = (\<lambda>t0. if log_probabilities c \<or> log_all c
                   then fold (\<lambda>i t. SubElement t ''log'' [(''idref'', i)])
                          [''prior'', ''likelihood'', ''posterior''] t0
                   else t0)"
  define h2 where "h2 = (\<lambda>t1. if log_params c \<or> log_all c
                   then fold (model_add_param_logs co) (model_objs c (all_models c))
                          (fold (clock_add_param_logs co) (clock_objs c (clocks c))
                             (SubElement t1 ''log'' [(''idref'', ''birthRate.t:beastlingTree'')]))
                   else t1)"
  define h3 where "h3 = (\<lambda>t2. if \<not> tree_logging_pointless c
                   then SubElement t2 ''log''
                          [(''id'', ''treeHeight''),
                           (''spec'', ''beast.evolution.tree.TreeHeightLogger''),
                           (''tree'', ''@Tree.t:beastlingTree'')]
                   else t2)"
  define h4 where "h4 = fold (\<lambda>clade t. SubElement t ''log'' [(''idref'', clade @ ''MRCA'')])
                    (sort (map fst (calibrations c)))"
  define h5 where "h5 = (\<lambda>t4. if log_fine_probs c
                   then fold (\<lambda>i t. SubElement t ''log'' [(''idref'', i)])
                          [''YuleModel.t:beastlingTree'', ''YuleBirthRatePrior.t:beastlingTree''] t4
                   else t4)"
  have id: "adds_children (\<lambda>p. p)"
    by (auto simp: adds_children_def)
  have a1: "adds_children h1"
    unfolding h1_def
    by (rule adds_children_if [OF adds_children_fold [OF adds_children_SubElement] id])
  have a2: "adds_children h2"
  proof (cases "log_params c \<or> log_all c")
    case False
    then show ?thesis unfolding h2_def using id by simp
  next
    case True
    have m: "adds_children (fold (model_add_param_logs co) (model_objs c (all_models c)))"
      using assms(1) by (intro adds_children_fold) simp
    have k: "adds_children (fold (clock_add_param_logs co) (clock_objs c (clocks c)))"
      using assms(2) by (intro adds_children_fold) simp
    show ?thesis
      unfolding adds_children_def
    proof (intro allI)
      fix t a x cs
      obtain n1 where 1: "SubElement (Element t a x cs) ''log''
            [(''idref'', ''birthRate.t:beastlingTree'')] = Element t a x (cs @ n1)"
        using adds_children_apply [OF adds_children_SubElement] by blast
      obtain n2 where 2: "fold (clock_add_param_logs co) (clock_objs c (clocks c))
            (Element t a x (cs @ n1)) = Element t a x ((cs @ n1) @ n2)"
        using adds_children_apply [OF k] by blast
      obtain n3 where 3: "fold (model_add_param_logs co) (model_objs c (all_models c))
            (Element t a x ((cs @ n1) @ n2)) = Element t a x (((cs @ n1) @ n2) @ n3)"
        using adds_children_apply [OF m] by blast
      from True 1 2 3 show "\<exists>new. h2 (Element t a x cs) = Element t a x (cs @ new)"
        unfolding h2_def by (intro exI [of _ "n1 @ n2 @ n3"]) simp
    qed
  qed
  have a3: "adds_children h3"
    unfolding h3_def
    by (rule adds_children_if [OF adds_children_SubElement id])
  have a4: "adds_children h4"
    unfolding h4_def by (intro adds_children_fold adds_children_SubElement)
  have a5: "adds_children h5"
    unfolding h5_def
    by (rule adds_children_if [OF adds_children_fold [OF adds_children_SubElement] id])
  obtain n1 where 1: "h1 (Element ''logger'' ?attrs [] []) = Element ''logger'' ?attrs [] ([] @ n1)"
    using adds_children_apply [OF a1] by blast
  obtain n2 where 2: "h2 (Element ''logger'' ?attrs [] ([] @ n1)) =
      Element ''logger'' ?attrs [] (([] @ n1) @ n2)"
    using adds_children_apply [OF a2] by blast
  obtain n3 where 3: "h3 (Element ''logger'' ?attrs [] (([] @ n1) @ n2)) =
      Element ''logger'' ?attrs [] ((([] @ n1) @ n2) @ n3)"
    using adds_children_apply [OF a3] by blast
  obtain n4 where 4: "h4 (Element ''logger'' ?attrs [] ((([] @ n1) @ n2) @ n3)) =
      Element ''logger'' ?attrs [] (((([] @ n1) @ n2) @ n3) @ n4)"
    using adds_children_apply [OF a4] by blast
  obtain n5 where 5: "h5 (Element ''logger'' ?attrs [] (((([] @ n1) @ n2) @ n3) @ n4)) =
      Element ''logger'' ?attrs [] ((((([] @ n1) @ n2) @ n3) @ n4) @ n5)"
    using adds_children_apply [OF a5] by blast
  have "add_tracer_logger co c (Element t a x cs) =
      append_child (Element t a x cs) (h5 (h4 (h3 (h2 (h1 (Element ''logger'' ?attrs [] []))))))"
    using True unfolding add_tracer_logger_def Let_def h1_def h2_def h3_def h4_def h5_def
    by simp
  also have "\<dots> = Element t a x (cs @ [Element ''logger'' ?attrs [] (n1 @ n2 @ n3 @ n4 @ n5)])"
    using 1 2 3 4 5 by simp
  finally show ?thesis
    by (intro exI [of _ "[Element ''logger'' ?attrs [] (n1 @ n2 @ n3 @ n4 @ n5)]"]) simp
qed

lemma writes_loggers_id: "writes_loggers c (\<lambda>r. r)"
  unfolding writes_loggers_def
  by (intro allI exI [of _ "[]"]) simp

lemma writes_loggers_if:
  "writes_loggers c f \<Longrightarrow> writes_loggers c g \<Longrightarrow> writes_loggers c (\<lambda>r. if b then f r else g r)"
  by (cases b) simp_all

lemma writes_loggers_comp:
  assumes "writes_loggers c f" and "writes_loggers c g"
  shows "writes_loggers c (\<lambda>r. g (f r))"
  unfolding writes_loggers_def
proof (intro allI)
  fix t a x cs
  from assms(1) obtain e1 where 1: "f (Element t a x cs) = Element t a x (cs @ e1)"
    "\<forall>e \<in> set e1. tag e = ''logger'' \<and>
       map_of (attrib e) ''logEvery'' = Some (str_int (log_every c))"
    unfolding writes_loggers_def by blast
  from assms(2) obtain e2 where 2: "g (Element t a x (cs @ e1)) = Element t a x ((cs @ e1) @ e2)"
    "\<forall>e \<in> set e2. tag e = ''logger'' \<and>
       map_of (attrib e) ''logEvery'' = Some (str_int (log_every c))"
    unfolding writes_loggers_def by blast
  from 1 2 show "\<exists>es. g (f (Element t a x cs)) = Element t a x (cs @ es) \<and>
      (\<forall>e \<in> set es. tag e = ''logger'' \<and>
         map_of (attrib e) ''logEvery'' = Some (str_int (log_every c)))"
    by (intro exI [of _ "e1 @ e2"]) auto
qed

lemma writes_loggers_fold:
  "(\<And>y. y \<in> set ys \<Longrightarrow> writes_loggers c (f y)) \<Longrightarrow> writes_loggers c (fold f ys)"
proof (induction ys)
  case Nil
  have "fold f [] = (\<lambda>r. r)"
    by (rule ext) simp
  then show ?case
    by (simp only: writes_loggers_id)
next
  case (Cons y ys)
  have a: "writes_loggers c (f y)" and b: "writes_loggers c (fold f ys)"
    using Cons by auto
  have "fold f (y # ys) = (\<lambda>r. fold f ys (f y r))"
    by (rule ext) simp
  then show ?case
    using writes_loggers_comp [OF a b] by (simp only:)
qed

lemma writes_loggers_tree_logger: "writes_loggers c (add_tree_logger c suffix b l)"
  unfolding writes_loggers_def
proof (intro allI)
  fix t a x cs
  from add_tree_logger_interval [of c suffix b l t a x cs]
  obtain e where "add_tree_logger c suffix b l (Element t a x cs) = Element t a x (cs @ [e])"
    "tag e = ''logger''" "map_of (attrib e) ''logEvery'' = Some (str_int (log_every c))"
    by blast
  then show "\<exists>es. add_tree_logger c suffix b l (Element t a x cs) = Element t a x (cs @ es) \<and>
      (\<forall>e \<in> set es. tag e = ''logger'' \<and>
         map_of (attrib e) ''logEvery'' = Some (str_int (log_every c)))"
    by (intro exI [of _ "[e]"]) simp
qed

lemma writes_loggers_tree_loggers: "writes_loggers c (add_tree_loggers c)"
proof -
  define nsc where "nsc =
    remdups (filter
      (\<lambda>r. case map_of (clock_heap c) r of None \<Rightarrow> False | Some k \<Rightarrow> \<not> c_is_strict k)
      (map m_clock (model_objs c (models c))))"
  define h1 where "h1 = (\<lambda>run0. if nsc = [] then add_tree_logger c [] [] False run0
                     else fold (\<lambda>clock r.
                            if length nsc = 1
                            then add_tree_logger c [] (c_branchrate_model_id clock) False r
                            else add_tree_logger c (''_'' @ c_name clock @ ''_rates'')
                                   (c_branchrate_model_id clock) False r)
                          (clock_objs c nsc) run0)"
  define h2 where "h2 = (\<lambda>run1. if log_pure_tree c \<and> \<not> (nsc = [])
                     then add_tree_logger c ''_pure'' [] False run1 else run1)"
  define h3 where "h3 = (\<lambda>run2. case geo_config c of
              None \<Rightarrow> run2
            | Some log_locations \<Rightarrow>
                (case map_of (model_heap c) (geo_model c) of
                   None \<Rightarrow> run2
                 | Some gm \<Rightarrow>
                     (case map_of (clock_heap c) (m_clock gm) of
                        None \<Rightarrow> run2
                      | Some gk \<Rightarrow>
                          if log_locations \<or> \<not> c_is_strict gk
                          then add_tree_logger c ''_geography'' (c_branchrate_model_id gk) True run2
                          else run2)))"
  have w1: "writes_loggers c h1"
    unfolding h1_def
    by (intro writes_loggers_if writes_loggers_fold writes_loggers_tree_logger)
  have w2: "writes_loggers c h2"
    unfolding h2_def
    by (intro writes_loggers_if writes_loggers_tree_logger writes_loggers_id)
  have w3: "writes_loggers c h3"
  proof (cases "geo_config c")
    case None
    then show ?thesis
      unfolding h3_def by (simp add: writes_loggers_id)
  next
    case g: (Some log_locations)
    show ?thesis
    proof (cases "map_of (model_heap c) (geo_model c)")
      case None
      with g show ?thesis
        unfolding h3_def by (simp add: writes_loggers_id)
    next
      case m: (Some gm)
      show ?thesis
      proof (cases "map_of (clock_heap c) (m_clock gm)")
        case None
        with g m show ?thesis
          unfolding h3_def by (simp add: writes_loggers_id)
      next
        case (Some gk)
        have "writes_loggers c (\<lambda>run2. if log_locations \<or> \<not> c_is_strict gk
                then add_tree_logger c ''_geography'' (c_branchrate_model_id gk) True run2
                else run2)"
          by (intro writes_loggers_if writes_loggers_tree_logger writes_loggers_id)
        with g m Some show ?thesis
          unfolding h3_def by simp
      qed
    qed
  qed
  have e: "add_tree_loggers c =
      (\<lambda>run0. if \<not> ((log_trees c \<or> log_all c) \<and> \<not> tree_logging_pointless c) then run0
              else h3 (h2 (h1 run0)))"
    unfolding add_tree_loggers_def Let_def h1_def h2_def h3_def nsc_def
    by (rule refl)
  show ?thesis
    unfolding e
    by (rule writes_loggers_if
        [OF writes_loggers_id writes_loggers_comp [OF writes_loggers_comp [OF w1 w2] w3]])
qed

lemma writes_loggers_all:
  assumes "\<And>m. adds_children (model_add_param_logs co m)"
    and "\<And>k. adds_children (clock_add_param_logs co k)"
  shows "writes_loggers c (add_loggers co c)"
proof -
  have s: "writes_loggers c (add_screen_logger c)"
    unfolding writes_loggers_def using add_screen_logger_interval by blast
  have t: "writes_loggers c (add_tracer_logger co c)"
    unfolding writes_loggers_def using add_tracer_logger_interval [OF assms] by blast
  have "add_loggers co c =
      (\<lambda>run. add_tree_loggers c ((\<lambda>r. add_tracer_logger co c (add_screen_logger c r)) run))"
    by (simp add: add_loggers_def fun_eq_iff)
  then show ?thesis
    using writes_loggers_comp [OF writes_loggers_comp [OF s t] writes_loggers_tree_loggers]
    by simp
qed

text \<open>
  C10, as the code has it. After a successful resolution pass the logging interval is
  never zero: a non-zero configured value is kept, otherwise it is the chain length
  divided by 10000 (rounded down), and 1 when that quotient is zero. It is at least 1
  whenever the configured interval and the chain length are not negative. The document
  never contains a zero logging interval: every node that \<^verbatim>\<open>add_loggers\<close> appends to
  the run element (the screen logger, the trace logger and the tree loggers, with
  collaborators that only add children to the trace logger) is a logger whose
  \<^verbatim>\<open>logEvery\<close> attribute is that interval as text, which is not "0".
\<close>

theorem log_every_never_zero:
  "process env c = Inr c' \<Longrightarrow>
     log_every c' \<noteq> 0 \<and>
     log_every c' =
       (if log_every c \<noteq> 0 then log_every c
        else if chainlength c div 10000 = 0 then 1 else chainlength c div 10000) \<and>
     (0 \<le> log_every c \<and> 0 \<le> chainlength c \<longrightarrow> 1 \<le> log_every c') \<and>
     str_int (log_every c') \<noteq> ''0'' \<and>
     ((\<forall>m. adds_children (model_add_param_logs co m)) \<and>
      (\<forall>k. adds_children (clock_add_param_logs co k)) \<longrightarrow>
      (\<exists>es. add_loggers co c' (Element t a x cs) = Element t a x (cs @ es) \<and>
         (\<forall>e \<in> set es. tag e = ''logger'' \<and>
            map_of (attrib e) ''logEvery'' = Some (str_int (log_every c')) \<and>
            map_of (attrib e) ''logEvery'' \<noteq> Some ''0'')))"
proof -
  assume p: "process env c = Inr c'"
  then obtain c1 ls where c1: "prepare env c = Inr c1"
    and c': "c' = c1\<lparr>languages := ls,
                 messages := messages c1 @
                   [''[INFO] '' @ str_nat (length ls) @ '' languages included in analysis.''],
                 processed := True\<rparr>"
    by (rule process_prepare)
  define q where "q = chainlength c div 10000"
  have v: "log_every c' = (if log_every c \<noteq> 0 then log_every c else if q = 0 then 1 else q)"
    using prepare_log_every(1) [OF c1] c'
    by (simp add: derive_log_every_value note_dependency_frame q_def)
  have nn: "0 \<le> chainlength c \<longrightarrow> 0 \<le> q"
    by (simp add: q_def pos_imp_zdiv_nonneg_iff)
  have nz: "log_every c' \<noteq> 0"
    unfolding v by simp
  have ge: "0 \<le> log_every c \<and> 0 \<le> chainlength c \<longrightarrow> 1 \<le> log_every c'"
    unfolding v using nn by (cases "log_every c = 0"; cases "q = 0") auto
  have sz: "str_int (log_every c') \<noteq> ''0''"
    using nz by (simp add: str_int_zero)
  have doc: "(\<forall>m. adds_children (model_add_param_logs co m)) \<and>
      (\<forall>k. adds_children (clock_add_param_logs co k)) \<longrightarrow>
      (\<exists>es. add_loggers co c' (Element t a x cs) = Element t a x (cs @ es) \<and>
         (\<forall>e \<in> set es. tag e = ''logger'' \<and>
            map_of (attrib e) ''logEvery'' = Some (str_int (log_every c')) \<and>
            map_of (attrib e) ''logEvery'' \<noteq> Some ''0''))"
  proof
    assume h: "(\<forall>m. adds_children (model_add_param_logs co m)) \<and>
      (\<forall>k. adds_children (clock_add_param_logs co k))"
    then have "writes_loggers c' (add_loggers co c')"
      by (intro writes_loggers_all) auto
    then obtain es where "add_loggers co c' (Element t a x cs) = Element t a x (cs @ es)"
      "\<forall>e \<in> set es. tag e = ''logger'' \<and>
            map_of (attrib e) ''logEvery'' = Some (str_int (log_every c'))"
      unfolding writes_loggers_def by blast
    with sz show "\<exists>es. add_loggers co c' (Element t a x cs) = Element t a x (cs @ es) \<and>
         (\<forall>e \<in> set es. tag e = ''logger'' \<and>
            map_of (attrib e) ''logEvery'' = Some (str_int (log_every c')) \<and>
            map_of (attrib e) ''logEvery'' \<noteq> Some ''0'')"
      by (intro exI [of _ es]) auto
  qed
  from nz ge sz doc v show ?thesis
    by (simp add: q_def)
qed

theorem log_every_never_zero_witness:
  "process example_env example_config = Inr (projr (process example_env example_config)) \<and>
   log_every (projr (process example_env example_config)) \<noteq> 0 \<and>
   1 \<le> log_every (projr (process example_env example_config)) \<and>
   (\<exists>es. add_loggers example_collaborators (projr (process example_env example_config))
            (Element ''run'' [] [] []) = Element ''run'' [] [] es \<and>
      (\<forall>e \<in> set es. map_of (attrib e) ''logEvery'' = Some ''1000''))"
proof -
  let ?c = "projr (process example_env example_config)"
  have a: "\<not> isl (process example_env example_config)"
    by code_simp
  then have b: "process example_env example_config = Inr ?c"
    by simp
  have c: "0 \<le> log_every example_config \<and> 0 \<le> chainlength example_config"
    by code_simp
  have h: "(\<forall>m. adds_children (model_add_param_logs example_collaborators m)) \<and>
      (\<forall>k. adds_children (clock_add_param_logs example_collaborators k))"
    by (simp add: example_collaborators_def adds_children_def)
  have v: "str_int (log_every ?c) = ''1000''"
    by code_simp
  from log_every_never_zero [OF b, of example_collaborators "''run''" "[]" "[]" "[]"] h
  obtain es where es: "add_loggers example_collaborators ?c (Element ''run'' [] [] []) =
      Element ''run'' [] [] ([] @ es)"
    "\<forall>e \<in> set es. map_of (attrib e) ''logEvery'' = Some (str_int (log_every ?c))"
    by blast
  from log_every_never_zero [OF b, of example_collaborators "''run''" "[]" "[]" "[]"] c
  have "log_every ?c \<noteq> 0 \<and> 1 \<le> log_every ?c"
    by blast
  with b es v show ?thesis
    by auto
qed

section \<open>Properties of the data readers\<close>

lemma lookup_present:
  "k \<in> fst ` set d \<Longrightarrow> \<exists>v. map_of d k = Some v \<and> lookup d k = Inr v"
  by (cases "map_of d k") (auto simp: lookup_def map_of_eq_None_iff)

lemma update_new_key:
  "k \<notin> fst ` set al \<Longrightarrow> AList.update k v al = al @ [(k, v)]"
  by (induction al) auto

lemma distinct_map_Some:
  "distinct (map Some xs) = distinct xs"
  by (induction xs) auto

lemma count_member:
  "l \<in> set xs \<Longrightarrow> 0 < length (filter (\<lambda>x. x = Some l) (map Some xs))"
  by (auto simp: filter_empty_conv)

text \<open>
  The loop over the records fails at the first record whose language is already loaded,
  and names a language that occurs more than once.
\<close>

lemma load_beastling_rows_duplicate:
  assumes "\<forall>row \<in> set rs. col \<in> fst ` set row"
    and "\<not> distinct (map Some (map fst data) @ map (\<lambda>row. map_of row col) rs)"
    and "distinct (map fst data)"
  shows "\<exists>l. load_beastling_rows col fn data rs =
           Inl (ValueError (''Duplicated language identifier '' @ l @
                            '' found in data file '' @ fn)) \<and>
           1 < length (filter (\<lambda>x. x = Some l)
                 (map Some (map fst data) @ map (\<lambda>row. map_of row col) rs))"
  using assms
proof (induction rs arbitrary: data)
  case Nil
  then show ?case
    using distinct_map_Some [of "map fst data"] by simp
next
  case (Cons row rs)
  from Cons.prems(1) obtain l where l: "map_of row col = Some l" "lookup row col = Inr l"
    using lookup_present [of col row] by auto
  show ?case
  proof (cases "l \<in> set (map fst data)")
    case True
    then have "0 < length (filter (\<lambda>x. x = Some l) (map Some (map fst data)))"
      by (rule count_member)
    with True l show ?thesis
      by (intro exI [of _ l]) auto
  next
    case False
    then have u: "AList.update l row data = data @ [(l, row)]"
      by (simp add: update_new_key)
    have d: "distinct (map fst (data @ [(l, row)]))"
      using Cons.prems(3) False by simp
    have e: "map Some (map fst (data @ [(l, row)])) @ map (\<lambda>row. map_of row col) rs =
        map Some (map fst data) @ map (\<lambda>row. map_of row col) (row # rs)"
      using l(1) by simp
    have n: "\<not> distinct (map Some (map fst (data @ [(l, row)])) @
                          map (\<lambda>row. map_of row col) rs)"
      unfolding e using Cons.prems(2) .
    from Cons.IH [OF _ n d] Cons.prems(1) obtain l' where
        "load_beastling_rows col fn (data @ [(l, row)]) rs =
           Inl (ValueError (''Duplicated language identifier '' @ l' @
                            '' found in data file '' @ fn))"
        "1 < length (filter (\<lambda>x. x = Some l')
               (map Some (map fst (data @ [(l, row)])) @ map (\<lambda>row. map_of row col) rs))"
      by auto
    then show ?thesis
      unfolding e using False l u by (intro exI [of _ l']) simp
  qed
qed

lemma load_beastling_rows_distinct:
  assumes "\<forall>row \<in> set rs. col \<in> fst ` set row"
    and "distinct (map Some (map fst data) @ map (\<lambda>row. map_of row col) rs)"
  shows "load_beastling_rows col fn data rs =
           Inr (data @ map (\<lambda>row. (the (map_of row col), row)) rs)"
  using assms
proof (induction rs arbitrary: data)
  case Nil
  then show ?case by simp
next
  case (Cons row rs)
  from Cons.prems(1) obtain l where l: "map_of row col = Some l" "lookup row col = Inr l"
    using lookup_present [of col row] by auto
  have f: "l \<notin> set (map fst data)"
    using Cons.prems(2) l(1) by auto
  then have u: "AList.update l row data = data @ [(l, row)]"
    by (simp add: update_new_key)
  have d: "distinct (map Some (map fst (data @ [(l, row)])) @ map (\<lambda>row. map_of row col) rs)"
    using Cons.prems(2) l(1) by simp
  from Cons.IH [OF _ d] Cons.prems(1) f l u show ?case
    by simp
qed

text \<open>The language column that \<^verbatim>\<open>load_beastling_data\<close> settles on.\<close>

lemma language_column_default:
  assumes "lc = None \<or> lc = Some []"
    and "find (\<lambda>candidate. lower candidate \<in> set language_column_names) (fieldnames rd) = Some col"
  shows "col \<noteq> []" and "col \<in> set (fieldnames rd)"
    and "load_beastling_data rd lc fn = load_beastling_rows col fn [] (rows rd)"
proof -
  from assms(2) have c: "col \<in> set (fieldnames rd)"
      and p: "lower col \<in> set language_column_names"
    by (auto simp: find_Some_iff)
  from p show n: "col \<noteq> []"
    by (auto simp: language_column_names_def lower_def)
  from c show "col \<in> set (fieldnames rd)" .
  from assms c n show "load_beastling_data rd lc fn = load_beastling_rows col fn [] (rows rd)"
    by (auto simp: load_beastling_data_def Let_def)
qed

lemma language_column_explicit:
  assumes "col \<noteq> []" and "col \<in> set (fieldnames rd)"
  shows "load_beastling_data rd (Some col) fn = load_beastling_rows col fn [] (rows rd)"
  using assms by (simp add: load_beastling_data_def Let_def)

lemma dataset_value_update:
  "dataset_value
     (AList.update l (AList.update f v (case map_of data l of None \<Rightarrow> [] | Some d \<Rightarrow> d)) data)
     l' f' =
   (if l' = l \<and> f' = f then Some v else dataset_value data l' f')"
  by (auto simp: dataset_value_def update_conv' split: option.splits)

lemma load_cldf_rows_values:
  assumes "\<forall>row \<in> set rs. {''Language_ID'', fc, ''Value''} \<subseteq> fst ` set row"
  shows "\<exists>data'. load_cldf_rows fc data rs = Inr data' \<and>
           set (map fst data') =
             set (map fst data) \<union> set (map (\<lambda>row. the (map_of row ''Language_ID'')) rs) \<and>
           (distinct (map fst data) \<longrightarrow> distinct (map fst data')) \<and>
           (\<forall>l f. dataset_value data' l f =
              (case cldf_values fc rs l f of Some v \<Rightarrow> Some v | None \<Rightarrow> dataset_value data l f))"
  using assms
proof (induction rs arbitrary: data)
  case Nil
  then show ?case by simp
next
  case (Cons row rs)
  from Cons.prems obtain l f v where
      l: "map_of row ''Language_ID'' = Some l" "lookup row ''Language_ID'' = Inr l"
    and f: "map_of row fc = Some f" "lookup row fc = Inr f"
    and v: "map_of row ''Value'' = Some v" "lookup row ''Value'' = Inr v"
    using lookup_present [of "''Language_ID''" row] lookup_present [of fc row]
      lookup_present [of "''Value''" row]
    by auto
  define data1 where "data1 = (if l \<notin> set (map fst data) then AList.update l [] data else data)"
  define data2 where "data2 =
    AList.update l (AList.update f v (case map_of data1 l of None \<Rightarrow> [] | Some d \<Rightarrow> d)) data1"
  have step: "load_cldf_rows fc data (row # rs) = load_cldf_rows fc data2 rs"
    using l f v by (simp add: data1_def data2_def Let_def)
  have keys: "set (map fst data2) = insert l (set (map fst data))"
    by (auto simp: data2_def data1_def dom_update)
  have dist: "distinct (map fst data) \<longrightarrow> distinct (map fst data2)"
    by (simp add: data2_def data1_def distinct_update)
  have v1: "dataset_value data1 l' f' = dataset_value data l' f'" for l' f'
  proof (cases "l \<in> set (map fst data)")
    case True
    then show ?thesis by (simp add: data1_def)
  next
    case False
    then have "map_of data l = None"
      by (simp add: map_of_eq_None_iff)
    with False show ?thesis
      by (simp add: data1_def dataset_value_def update_conv')
  qed
  have v2: "dataset_value data2 l' f' =
      (if l' = l \<and> f' = f then Some v else dataset_value data l' f')" for l' f'
    unfolding data2_def dataset_value_update v1 ..
  from Cons.IH [of data2] Cons.prems obtain data' where
      r: "load_cldf_rows fc data2 rs = Inr data'"
      "set (map fst data') =
         set (map fst data2) \<union> set (map (\<lambda>row. the (map_of row ''Language_ID'')) rs)"
      "distinct (map fst data2) \<longrightarrow> distinct (map fst data')"
      "\<forall>l f. dataset_value data' l f =
         (case cldf_values fc rs l f of Some v \<Rightarrow> Some v | None \<Rightarrow> dataset_value data2 l f)"
    by auto
  have vals: "\<forall>l' f'. dataset_value data' l' f' =
      (case cldf_values fc (row # rs) l' f' of
         Some v \<Rightarrow> Some v | None \<Rightarrow> dataset_value data l' f')"
    using r(4) v2 l(1) f(1) v(1) by (auto split: option.splits)
  show ?case
    using step r(1,2,3) keys dist l(1) vals
    by (intro exI [of _ data']) auto
qed

text \<open>
  C7, as the code has it. In the BEASTling format, whether the language column is
  named or found among the default names, a language identifier that occurs in two
  records makes loading fail with the \<^verbatim>\<open>ValueError\<close> "Duplicated language
  identifier", which names an identifier that occurs more than once; without such an
  identifier every record is loaded under its language. In the CLDF format loading
  succeeds whenever the records have the three columns: the result has one entry for
  every language of the file, and for a language and a feature it holds the value of the
  last record for them.
\<close>

theorem duplicate_languages:
  "(((lc = Some col \<and> col \<noteq> [] \<and> col \<in> set (fieldnames rd)) \<or>
     ((lc = None \<or> lc = Some []) \<and>
      find (\<lambda>candidate. lower candidate \<in> set language_column_names) (fieldnames rd) =
        Some col)) \<and>
    (\<forall>row \<in> set (rows rd). col \<in> fst ` set row) \<longrightarrow>
      load_data_from rd (Some ''beastling'') lc fn = load_beastling_data rd lc fn \<and>
      (\<not> distinct (map (\<lambda>row. map_of row col) (rows rd)) \<longrightarrow>
         (\<exists>l. load_beastling_data rd lc fn =
                Inl (ValueError (''Duplicated language identifier '' @ l @
                                 '' found in data file '' @ fn)) \<and>
              1 < length (filter (\<lambda>row. map_of row col = Some l) (rows rd)))) \<and>
      (distinct (map (\<lambda>row. map_of row col) (rows rd)) \<longrightarrow>
         load_beastling_data rd lc fn =
           Inr (map (\<lambda>row. (the (map_of row col), row)) (rows rd)))) \<and>
   ((\<forall>row \<in> set (rows rd).
       {''Language_ID'',
        if ''Feature_ID'' \<in> set (fieldnames rd) then ''Feature_ID'' else ''Parameter_ID'',
        ''Value''} \<subseteq> fst ` set row) \<longrightarrow>
      (\<exists>data. load_cldf_data rd = Inr data \<and>
              load_data_from rd (Some ''cldf'') lc fn = Inr data \<and>
              distinct (map fst data) \<and>
              set (map fst data) =
                set (map (\<lambda>row. the (map_of row ''Language_ID'')) (rows rd)) \<and>
              (\<forall>l f. dataset_value data l f =
                 cldf_values
                   (if ''Feature_ID'' \<in> set (fieldnames rd) then ''Feature_ID''
                    else ''Parameter_ID'')
                   (rows rd) l f)))"
proof (intro conjI impI)
  show "load_data_from rd (Some ''beastling'') lc fn = load_beastling_data rd lc fn"
    by (simp add: load_data_from_def)
next
  assume a: "((lc = Some col \<and> col \<noteq> [] \<and> col \<in> set (fieldnames rd)) \<or>
     ((lc = None \<or> lc = Some []) \<and>
      find (\<lambda>candidate. lower candidate \<in> set language_column_names) (fieldnames rd) =
        Some col)) \<and>
    (\<forall>row \<in> set (rows rd). col \<in> fst ` set row)"
  then have e: "load_beastling_data rd lc fn = load_beastling_rows col fn [] (rows rd)"
    using language_column_default(3) [of lc rd col fn] language_column_explicit [of col rd fn]
    by blast
  {
    assume "\<not> distinct (map (\<lambda>row. map_of row col) (rows rd))"
    with a obtain l where
        "load_beastling_rows col fn [] (rows rd) =
           Inl (ValueError (''Duplicated language identifier '' @ l @
                            '' found in data file '' @ fn))"
        "1 < length (filter (\<lambda>x. x = Some l)
               (map Some (map fst []) @ map (\<lambda>row. map_of row col) (rows rd)))"
      using load_beastling_rows_duplicate [of "rows rd" col "[]" fn] by auto
    then show "\<exists>l. load_beastling_data rd lc fn =
                Inl (ValueError (''Duplicated language identifier '' @ l @
                                 '' found in data file '' @ fn)) \<and>
              1 < length (filter (\<lambda>row. map_of row col = Some l) (rows rd))"
      unfolding e by (intro exI [of _ l]) (simp add: filter_map comp_def)
  }
  {
    assume "distinct (map (\<lambda>row. map_of row col) (rows rd))"
    with a show "load_beastling_data rd lc fn =
           Inr (map (\<lambda>row. (the (map_of row col), row)) (rows rd))"
      unfolding e using load_beastling_rows_distinct [of "rows rd" col "[]" fn] by simp
  }
next
  assume "\<forall>row \<in> set (rows rd).
       {''Language_ID'',
        if ''Feature_ID'' \<in> set (fieldnames rd) then ''Feature_ID'' else ''Parameter_ID'',
        ''Value''} \<subseteq> fst ` set row"
  then have h: "\<forall>row \<in> set (rows rd).
       {''Language_ID'',
        if ''Feature_ID'' \<in> set (fieldnames rd) then ''Feature_ID'' else ''Parameter_ID'',
        ''Value''} \<subseteq> fst ` set row" .
  define fc where "fc =
    (if ''Feature_ID'' \<in> set (fieldnames rd) then ''Feature_ID'' else ''Parameter_ID'')"
  from load_cldf_rows_values [OF h, of "[]"] obtain data where
      d: "load_cldf_rows fc [] (rows rd) = Inr data"
      "set (map fst data) = set (map (\<lambda>row. the (map_of row ''Language_ID'')) (rows rd))"
      "distinct (map fst data)"
      "\<forall>l f. dataset_value data l f =
         (case cldf_values fc (rows rd) l f of Some v \<Rightarrow> Some v | None \<Rightarrow> dataset_value [] l f)"
    unfolding fc_def by auto
  have e: "dataset_value [] l f = None" for l f
    by (simp add: dataset_value_def)
  have v: "\<forall>l f. dataset_value data l f = cldf_values fc (rows rd) l f"
    using d(4) unfolding e by (auto split: option.splits)
  have l: "load_cldf_data rd = Inr data"
    using d(1) by (simp add: load_cldf_data_def fc_def)
  then have "load_data_from rd (Some ''cldf'') lc fn = Inr data"
    by (simp add: load_data_from_def)
  with l d(2,3) v show "\<exists>data. load_cldf_data rd = Inr data \<and>
              load_data_from rd (Some ''cldf'') lc fn = Inr data \<and>
              distinct (map fst data) \<and>
              set (map fst data) =
                set (map (\<lambda>row. the (map_of row ''Language_ID'')) (rows rd)) \<and>
              (\<forall>l f. dataset_value data l f =
                 cldf_values
                   (if ''Feature_ID'' \<in> set (fieldnames rd) then ''Feature_ID''
                    else ''Parameter_ID'')
                   (rows rd) l f)"
    unfolding fc_def by (intro exI [of _ data]) simp
qed

theorem duplicate_languages_witness:
  "load_beastling_data beastling_reader None ''data.csv'' =
     Inl (ValueError ''Duplicated language identifier aaa found in data file data.csv'') \<and>
   load_cldf_data cldf_reader = Inr [(''aaa'', [(''f1'', ''2''), (''f2'', ''0'')])] \<and>
   dataset_value [(''aaa'', [(''f1'', ''2''), (''f2'', ''0'')])] ''aaa'' ''f1'' =
     cldf_values ''Feature_ID'' (rows cldf_reader) ''aaa'' ''f1''"
proof -
  have a: "((None = Some ''iso'' \<and> ''iso'' \<noteq> [] \<and> ''iso'' \<in> set (fieldnames beastling_reader)) \<or>
     (((None :: string option) = None \<or> None = Some []) \<and>
      find (\<lambda>candidate. lower candidate \<in> set language_column_names)
        (fieldnames beastling_reader) = Some ''iso'')) \<and>
    (\<forall>row \<in> set (rows beastling_reader). ''iso'' \<in> fst ` set row)"
    by code_simp
  have n: "\<not> distinct (map (\<lambda>row. map_of row ''iso'') (rows beastling_reader))"
    by (simp add: beastling_reader_def)
  have b: "\<forall>row \<in> set (rows cldf_reader).
       {''Language_ID'',
        if ''Feature_ID'' \<in> set (fieldnames cldf_reader) then ''Feature_ID'' else ''Parameter_ID'',
        ''Value''} \<subseteq> fst ` set row"
    by (simp add: cldf_reader_def)
  have f: "(if ''Feature_ID'' \<in> set (fieldnames cldf_reader) then ''Feature_ID''
            else ''Parameter_ID'') = ''Feature_ID''"
    by (simp add: cldf_reader_def)
  have c: "load_beastling_data beastling_reader None ''data.csv'' =
     Inl (ValueError ''Duplicated language identifier aaa found in data file data.csv'')"
    by code_simp
  have d: "load_cldf_data cldf_reader = Inr [(''aaa'', [(''f1'', ''2''), (''f2'', ''0'')])]"
    by code_simp
  from duplicate_languages [of None "''iso''" beastling_reader "''data.csv''"] a n
  have 1: "\<exists>l. load_beastling_data beastling_reader None ''data.csv'' =
                Inl (ValueError (''Duplicated language identifier '' @ l @
                                 '' found in data file '' @ ''data.csv''))"
    by blast
  from duplicate_languages [of None "''iso''" cldf_reader "''data.csv''"] b
  obtain data where 2: "load_cldf_data cldf_reader = Inr data"
    "\<forall>l f. dataset_value data l f =
       cldf_values
         (if ''Feature_ID'' \<in> set (fieldnames cldf_reader) then ''Feature_ID''
          else ''Parameter_ID'')
         (rows cldf_reader) l f"
    by blast
  from 2 d f have "dataset_value [(''aaa'', [(''f1'', ''2''), (''f2'', ''0'')])] ''aaa'' ''f1'' =
     cldf_values ''Feature_ID'' (rows cldf_reader) ''aaa'' ''f1''"
    by auto
  with 1 c d show ?thesis
    by blast
qed

text \<open>
  C7 as stated fails for the CLDF format: three records of the language aaa, two of them
  for the same feature, load without an error into one entry, whether the format is named
  or guessed from the header.
\<close>

theorem cldf_duplicates_merged:
  "load_cldf_data cldf_reader = Inr [(''aaa'', [(''f1'', ''2''), (''f2'', ''0'')])] \<and>
   load_data_from cldf_reader None None ''data.csv'' =
     Inr [(''aaa'', [(''f1'', ''2''), (''f2'', ''0'')])] \<and>
   load_data_from cldf_reader (Some ''cldf'') None ''data.csv'' =
     Inr [(''aaa'', [(''f1'', ''2''), (''f2'', ''0'')])]"
  by code_simp

section \<open>Properties of the taxon set cache\<close>

lemma find_append:
  "find P (xs @ ys) = (case find P xs of Some x \<Rightarrow> Some x | None \<Rightarrow> find P ys)"
  by (induction xs) auto

lemma update_absent:
  "k \<notin> fst ` set al \<Longrightarrow> AList.update k v al = al @ [(k, v)]"
  by (induction al) auto

lemma find_set_iff:
  "(find (\<lambda>(idref, taxa). taxa = S) reg = None) = (S \<notin> snd ` set reg)"
  by (induction reg) auto

lemma add_taxon_set_found:
  "find (\<lambda>(idref, taxa). taxa = set ls) reg = Some (i, T) \<Longrightarrow>
     add_taxon_set reg (Element t a x cs) label ls d =
       (Element t a x (cs @ [taxon_set_reference i]), reg)"
proof -
  have e: "(\<lambda>(idref, taxa). set ls = taxa) = (\<lambda>(idref, taxa). taxa = set ls)"
    by auto
  show "find (\<lambda>(idref, taxa). taxa = set ls) reg = Some (i, T) \<Longrightarrow> ?thesis"
    by (simp add: add_taxon_set_def e SubElement_def taxon_set_reference_def)
qed

lemma add_taxon_set_new:
  "find (\<lambda>(idref, taxa). taxa = set ls) reg = None \<Longrightarrow>
     add_taxon_set reg (Element t a x cs) label ls d =
       (Element t a x (cs @ [taxon_set_definition label ls d]),
        AList.update label (set ls) reg)"
proof -
  have e: "(\<lambda>(idref, taxa). set ls = taxa) = (\<lambda>(idref, taxa). taxa = set ls)"
    by auto
  show "find (\<lambda>(idref, taxa). taxa = set ls) reg = None \<Longrightarrow> ?thesis"
    by (simp add: add_taxon_set_def e Let_def taxon_set_definition_def)
qed

text \<open>
  No two entries of the cache hold the same set of languages, so the entry that the scan
  of \<^verbatim>\<open>add_taxon_set\<close> finds does not depend on the order of the dictionary.
\<close>

lemma update_values:
  "snd ` set (AList.update k v al) \<subseteq> insert v (snd ` set al)"
  by (induction al) auto

lemma update_values_distinct:
  "v \<notin> snd ` set al \<Longrightarrow> distinct (map snd al) \<Longrightarrow>
     distinct (map snd (AList.update k v al))"
proof (induction al)
  case Nil
  then show ?case by simp
next
  case (Cons p al)
  show ?case
  proof (cases "fst p = k")
    case True
    with Cons.prems show ?thesis by auto
  next
    case False
    have "snd p \<notin> snd ` set (AList.update k v al)"
      using update_values [of k v al] Cons.prems by auto
    with False Cons show ?thesis by auto
  qed
qed

lemma add_taxon_set_distinct:
  "distinct (map snd reg) \<Longrightarrow>
     distinct (map snd (snd (add_taxon_set reg (Element t a x cs) label ls d)))"
proof (cases "find (\<lambda>(idref, taxa). taxa = set ls) reg")
  case None
  assume "distinct (map snd reg)"
  with None show ?thesis
    by (simp add: add_taxon_set_new update_values_distinct find_set_iff)
next
  case (Some p)
  assume "distinct (map snd reg)"
  with Some show ?thesis
    by (cases p) (simp add: add_taxon_set_found)
qed

lemma add_taxon_sets_refines:
  assumes "\<forall>S. find (\<lambda>(idref, taxa). taxa = S) reg = find (\<lambda>(idref, taxa). taxa = S) earlier"
    and "set reg \<subseteq> set earlier"
    and "consistent_labels (earlier @ request_sets reqs)"
  shows "fst (add_taxon_sets reg (Element t a x cs) reqs) =
           Element t a x (cs @ spec_taxon_sets earlier reqs)"
  using assms
proof (induction reqs arbitrary: reg earlier cs)
  case Nil
  then show ?case by simp
next
  case (Cons r reqs)
  obtain label ls d where r: "r = (label, ls, d)"
    by (cases r)
  let ?P = "\<lambda>S. (\<lambda>(idref, taxa). taxa = S) :: string \<times> string set \<Rightarrow> bool"
  have c: "consistent_labels ((earlier @ [(label, set ls)]) @ request_sets reqs)"
    using Cons.prems(3) r by (simp add: request_sets_def)
  show ?case
  proof (cases "find (?P (set ls)) reg")
    case None
    then have n: "find (?P (set ls)) earlier = None"
      using Cons.prems(1) by simp
    have "label \<notin> fst ` set reg"
    proof
      assume "label \<in> fst ` set reg"
      then obtain T where T: "(label, T) \<in> set reg"
        by auto
      then have "(label, T) \<in> set (earlier @ request_sets (r # reqs))"
        using Cons.prems(2) by auto
      moreover have "(label, set ls) \<in> set (earlier @ request_sets (r # reqs))"
        using r by (simp add: request_sets_def)
      ultimately have "T = set ls"
        using Cons.prems(3) unfolding consistent_labels_def by fastforce
      with T None show False
        by (force simp: find_set_iff)
    qed
    then have u: "AList.update label (set ls) reg = reg @ [(label, set ls)]"
      by (rule update_absent)
    have f: "\<forall>S. find (?P S) (reg @ [(label, set ls)]) = find (?P S) (earlier @ [(label, set ls)])"
      using Cons.prems(1) by (simp add: find_append)
    have s: "set (reg @ [(label, set ls)]) \<subseteq> set (earlier @ [(label, set ls)])"
      using Cons.prems(2) by auto
    from Cons.IH [OF f s c, of "cs @ [taxon_set_definition label ls d]"] None n r u
    show ?thesis
      by (simp add: add_taxon_set_new)
  next
    case (Some p)
    obtain i T where p: "p = (i, T)"
      by (cases p)
    have e: "find (?P (set ls)) earlier = Some (i, T)"
      using Cons.prems(1) Some p by simp
    have f: "\<forall>S. find (?P S) reg = find (?P S) (earlier @ [(label, set ls)])"
    proof
      fix S
      show "find (?P S) reg = find (?P S) (earlier @ [(label, set ls)])"
      proof (cases "find (?P S) earlier")
        case None
        with e have "S \<noteq> set ls"
          by auto
        with None Cons.prems(1) show ?thesis
          by (simp add: find_append)
      next
        case (Some q)
        with Cons.prems(1) show ?thesis
          by (simp add: find_append)
      qed
    qed
    have s: "set reg \<subseteq> set (earlier @ [(label, set ls)])"
      using Cons.prems(2) by auto
    from Cons.IH [OF f s c, of "cs @ [taxon_set_reference i]"] Some p e r
    show ?thesis
      by (simp add: add_taxon_set_found)
  qed
qed

lemma add_taxon_set_shape:
  "\<exists>e reg'. \<forall>t a x cs.
     add_taxon_set reg (Element t a x cs) label ls d = (Element t a x (cs @ [e]), reg')"
proof (cases "find (\<lambda>(idref, taxa). taxa = set ls) reg")
  case None
  then show ?thesis
    by (auto simp: add_taxon_set_new)
next
  case (Some p)
  then show ?thesis
    by (cases p) (auto simp: add_taxon_set_found)
qed

lemma add_calibration_request:
  assumes "add_calibration str reg (Element t a x cs) clade cal = Inr (prior', reg')"
  shows "\<exists>attrs e d. prior' = Element t a x (cs @ [Element ''distribution'' attrs [] [e, d]]) \<and>
           (\<forall>t0 a0 x0 cs0.
              add_taxon_set reg (Element t0 a0 x0 cs0) (taxon_set_name clade) (langs cal) False =
                (Element t0 a0 x0 (cs0 @ [e]), reg'))"
proof -
  let ?attrs = "[(''id'', clade @ ''MRCA''), (''monophyletic'', ''true''),
                 (''spec'', ''beast.math.distributions.MRCAPrior''),
                 (''tree'', ''@Tree.t:beastlingTree'')] @
                (if originate cal then [(''useOriginate'', ''true'')] else [])"
  obtain e r where e: "\<forall>t a x cs.
      add_taxon_set reg (Element t a x cs) (taxon_set_name clade) (langs cal) False =
        (Element t a x (cs @ [e]), r)"
    using add_taxon_set_shape by blast
  from assms obtain d where d: "calibration_distribution str clade cal = Inr d"
    by (auto simp: add_calibration_def Let_def split: prod.splits sum.splits)
  have "prior' = Element t a x (cs @ [Element ''distribution'' ?attrs [] [e, d]]) \<and> reg' = r"
    using assms d e
    by (simp add: add_calibration_def Let_def taxon_set_name_def)
  with e show ?thesis
    by blast
qed

lemma add_calibrations_loop_requests:
  assumes "add_calibrations_loop str reg (Element t a x cs) cals = Inr (prior', reg')"
  shows "\<exists>nodes. prior' = Element t a x (cs @ nodes) \<and> length nodes = length cals \<and>
           (\<forall>t0 a0 x0 cs0.
              add_taxon_sets reg (Element t0 a0 x0 cs0)
                (map (\<lambda>(clade, cal). (taxon_set_name clade, langs cal, False)) cals) =
              (Element t0 a0 x0 (cs0 @ map (\<lambda>n. hd (children n)) nodes), reg'))"
  using assms
proof (induction cals arbitrary: reg cs)
  case Nil
  then show ?case by simp
next
  case (Cons p cals)
  obtain clade cal where p: "p = (clade, cal)"
    by (cases p)
  from Cons.prems p obtain prior1 reg1 where
      s: "add_calibration str reg (Element t a x cs) clade cal = Inr (prior1, reg1)"
    and r: "add_calibrations_loop str reg1 prior1 cals = Inr (prior', reg')"
    by (auto split: sum.splits)
  from add_calibration_request [OF s] obtain attrs e d where
      n: "prior1 = Element t a x (cs @ [Element ''distribution'' attrs [] [e, d]])"
      "\<forall>t0 a0 x0 cs0.
         add_taxon_set reg (Element t0 a0 x0 cs0) (taxon_set_name clade) (langs cal) False =
           (Element t0 a0 x0 (cs0 @ [e]), reg1)"
    by blast
  from Cons.IH [OF r [unfolded n(1)]] obtain nodes where
      ns: "prior' = Element t a x ((cs @ [Element ''distribution'' attrs [] [e, d]]) @ nodes)"
      "length nodes = length cals"
      "\<forall>t0 a0 x0 cs0.
         add_taxon_sets reg1 (Element t0 a0 x0 cs0)
           (map (\<lambda>(clade, cal). (taxon_set_name clade, langs cal, False)) cals) =
         (Element t0 a0 x0 (cs0 @ map (\<lambda>n. hd (children n)) nodes), reg')"
    by blast
  show ?case
    using ns n(2) p
    by (intro exI [of _ "Element ''distribution'' attrs [] [e, d] # nodes"]) simp
qed

lemma add_tree_state_request:
  "\<exists>tree param e reg0.
     add_tree_state c reg (Element t a x cs) = (Element t a x (cs @ [tree, param]), reg0) \<and>
     children tree = [e] \<and>
     (\<forall>t0 a0 x0 cs0.
        add_taxon_set reg (Element t0 a0 x0 cs0) ''taxa'' (languages c) True =
          (Element t0 a0 x0 (cs0 @ [e]), reg0))"
proof -
  obtain e r where e: "\<forall>t a x cs.
      add_taxon_set reg (Element t a x cs) ''taxa'' (languages c) True =
        (Element t a x (cs @ [e]), r)"
    using add_taxon_set_shape by blast
  then show ?thesis
    by (simp add: add_tree_state_def Let_def)
qed

text \<open>
  C1, as the code has it. Starting from an empty cache, and as long as no label is
  requested for two different sets of languages, every request whose set of languages
  equals that of an earlier request produces only a reference to the label of the first
  such request, and every other request a full definition under its own label. So two
  requests with equal sets of languages on an empty cache give one definition and one
  reference to it. In the document, the taxon set of the tree followed by the taxon sets
  of the calibrations, in the order of the clade labels, are these nodes for the
  requests of the builder: a calibration whose languages are those of an earlier taxon
  set, the roster of the tree included, gets a reference to it.
\<close>

theorem taxon_set_deduplication:
  "(consistent_labels (request_sets reqs) \<longrightarrow>
      fst (add_taxon_sets [] (Element t a x cs) reqs) =
        Element t a x (cs @ spec_taxon_sets [] reqs)) \<and>
   (set ls1 = set ls2 \<longrightarrow>
      fst (add_taxon_sets [] (Element t a x cs) [(l1, ls1, d1), (l2, ls2, d2)]) =
        Element t a x (cs @ [taxon_set_definition l1 ls1 d1, taxon_set_reference l1])) \<and>
   (consistent_labels (request_sets (builder_requests c)) \<and>
    add_tree_state c [] (Element t1 a1 x1 cs1) = (state', reg0) \<and>
    add_calibrations str c reg0 (Element t a x cs) = Inr (prior', reg1) \<longrightarrow>
      (\<exists>tree param nodes.
         state' = Element t1 a1 x1 (cs1 @ [tree, param]) \<and>
         prior' = Element t a x (cs @ nodes) \<and>
         length nodes = length (calibrations c) \<and>
         children tree @ map (\<lambda>n. hd (children n)) nodes =
           spec_taxon_sets [] (builder_requests c)))"
proof (intro conjI impI)
  assume "consistent_labels (request_sets reqs)"
  then show "fst (add_taxon_sets [] (Element t a x cs) reqs) =
        Element t a x (cs @ spec_taxon_sets [] reqs)"
    using add_taxon_sets_refines [of "[]" "[]" reqs t a x cs] by simp
next
  assume e: "set ls1 = set ls2"
  then have "consistent_labels ([] @ request_sets [(l1, ls1, d1), (l2, ls2, d2)])"
    by (simp add: consistent_labels_def request_sets_def)
  from add_taxon_sets_refines [OF _ _ this, of "[]" t a x cs] e
  show "fst (add_taxon_sets [] (Element t a x cs) [(l1, ls1, d1), (l2, ls2, d2)]) =
        Element t a x (cs @ [taxon_set_definition l1 ls1 d1, taxon_set_reference l1])"
    by simp
next
  assume h: "consistent_labels (request_sets (builder_requests c)) \<and>
    add_tree_state c [] (Element t1 a1 x1 cs1) = (state', reg0) \<and>
    add_calibrations str c reg0 (Element t a x cs) = Inr (prior', reg1)"
  let ?cals = "sort_key fst (calibrations c)"
  let ?reqs = "map (\<lambda>(clade, cal). (taxon_set_name clade, langs cal, False)) ?cals"
  from add_tree_state_request [of c "[]" t1 a1 x1 cs1] h obtain tree param e where
      st: "state' = Element t1 a1 x1 (cs1 @ [tree, param])" "children tree = [e]"
      "\<forall>t0 a0 x0 cs0.
         add_taxon_set [] (Element t0 a0 x0 cs0) ''taxa'' (languages c) True =
           (Element t0 a0 x0 (cs0 @ [e]), reg0)"
    by auto
  from h have "add_calibrations_loop str reg0 (Element t a x cs) ?cals = Inr (prior', reg1)"
    by (simp add: add_calibrations_def)
  from add_calibrations_loop_requests [OF this] obtain nodes where
      ns: "prior' = Element t a x (cs @ nodes)" "length nodes = length ?cals"
      "\<forall>t0 a0 x0 cs0.
         add_taxon_sets reg0 (Element t0 a0 x0 cs0) ?reqs =
           (Element t0 a0 x0 (cs0 @ map (\<lambda>n. hd (children n)) nodes), reg1)"
    by blast
  have "fst (add_taxon_sets [] (Element [] [] [] []) (builder_requests c)) =
      Element [] [] [] ([] @ e # map (\<lambda>n. hd (children n)) nodes)"
    using st(3) ns(3) by (simp add: builder_requests_def)
  moreover have "fst (add_taxon_sets [] (Element [] [] [] []) (builder_requests c)) =
      Element [] [] [] ([] @ spec_taxon_sets [] (builder_requests c))"
    using add_taxon_sets_refines [of "[]" "[]" "builder_requests c" "[]" "[]" "[]" "[]"] h
    by simp
  ultimately have "e # map (\<lambda>n. hd (children n)) nodes = spec_taxon_sets [] (builder_requests c)"
    by simp
  with st(1,2) ns(1,2) show "\<exists>tree param nodes.
         state' = Element t1 a1 x1 (cs1 @ [tree, param]) \<and>
         prior' = Element t a x (cs @ nodes) \<and>
         length nodes = length (calibrations c) \<and>
         children tree @ map (\<lambda>n. hd (children n)) nodes =
           spec_taxon_sets [] (builder_requests c)"
    by (intro exI [of _ tree] exI [of _ param] exI [of _ nodes]) simp
qed

theorem taxon_set_deduplication_witness:
  "fst (add_taxon_sets [] (Element ''prior'' [] [] []) (builder_requests built_config)) =
     Element ''prior'' [] [] 
       [taxon_set_definition ''taxa'' [''aaa'', ''bbb'', ''ccc''] True,
        taxon_set_reference ''taxa'',
        taxon_set_definition ''east'' [''bbb'', ''aaa''] False,
        taxon_set_reference ''east'']"
proof -
  have c: "consistent_labels (request_sets (builder_requests built_config))"
    by code_simp
  have s: "spec_taxon_sets [] (builder_requests built_config) =
      [taxon_set_definition ''taxa'' [''aaa'', ''bbb'', ''ccc''] True,
       taxon_set_reference ''taxa'',
       taxon_set_definition ''east'' [''bbb'', ''aaa''] False,
       taxon_set_reference ''east'']"
    by code_simp
  have "consistent_labels (request_sets (builder_requests built_config)) \<longrightarrow>
      fst (add_taxon_sets [] (Element ''prior'' [] [] []) (builder_requests built_config)) =
        Element ''prior'' [] [] ([] @ spec_taxon_sets [] (builder_requests built_config))"
    by (rule taxon_set_deduplication [THEN conjunct1])
  with c s show ?thesis
    by simp
qed

text \<open>
  C1 as stated fails. Two calibrations on all three languages, under the labels all
  and whole, give two references to the taxon set of the tree and no definition. And
  when a calibration is itself labelled \<^verbatim>\<open>taxa\<close>, its definition replaces the roster
  in the cache, so that a later calibration on all three languages is defined anew.
\<close>

theorem taxon_sets_not_one_definition:
  "map (\<lambda>n. hd (children n))
     (children (fst (projr (add_calibrations str_int roster_config
        (snd (add_tree_state roster_config [] (Element ''state'' [] [] [])))
        (Element ''prior'' [] [] []))))) =
     [taxon_set_reference ''taxa'', taxon_set_reference ''taxa''] \<and>
   map (\<lambda>n. hd (children n))
     (children (fst (projr (add_calibrations str_int relabelled_config
        (snd (add_tree_state relabelled_config [] (Element ''state'' [] [] [])))
        (Element ''prior'' [] [] []))))) =
     [taxon_set_definition ''taxa'' [''aaa'', ''bbb''] False,
      taxon_set_definition ''zzz'' [''aaa'', ''bbb'', ''ccc''] False]"
  by code_simp

section \<open>Properties of the builder object\<close>












end
